theory Spec2Isabelle
  imports Main "HOL-Library.Word"
begin

unbundle bit_operations_syntax

section \<open>Scenario command engine (hexl\_base/Scenario.cpp)\<close>

text \<open>
  A \<open>Command\<close> is a polymorphic object with the virtual methods \<open>Execute\<close> and
  \<open>Finish\<close>; both take the \<open>RuntimeState*\<close>, may change it and return a
  \<open>bool\<close>.  The runtime state is threaded explicitly: a method is a function from the state
  to its result and the new state.  A \<open>CommandSequence\<close> owns an ordered vector of
  commands.
\<close>

record 'rt Command =
  Execute :: "'rt \<Rightarrow> bool \<times> 'rt"
  Finish :: "'rt \<Rightarrow> bool \<times> 'rt"

type_synonym 'rt CommandSequence = "'rt Command list"

text \<open>
  \<^verbatim>\<open>for (c : commands) { if (!c->Execute(rt)) { return false; } } return true;\<close>
\<close>

fun CommandSequence_Execute :: "'rt CommandSequence \<Rightarrow> 'rt \<Rightarrow> bool \<times> 'rt" where
  "CommandSequence_Execute [] rt = (True, rt)"
| "CommandSequence_Execute (c # cs) rt =
     (case Execute c rt of
        (ok, rt') \<Rightarrow> if \<not> ok then (False, rt') else CommandSequence_Execute cs rt')"

text \<open>
  \<^verbatim>\<open>bool result = true; for (c : commands) { result &= c->Finish(rt); } return result;\<close>
  The loop carries \<open>result\<close>; \<open>&=\<close> always evaluates its right-hand side.
\<close>

fun Finish_loop :: "'rt CommandSequence \<Rightarrow> bool \<Rightarrow> 'rt \<Rightarrow> bool \<times> 'rt" where
  "Finish_loop [] result rt = (result, rt)"
| "Finish_loop (c # cs) result rt =
     (case Finish c rt of (r, rt') \<Rightarrow> Finish_loop cs (result \<and> r) rt')"

definition CommandSequence_Finish :: "'rt CommandSequence \<Rightarrow> 'rt \<Rightarrow> bool \<times> 'rt" where
  "CommandSequence_Finish commands rt = Finish_loop commands True rt"

text \<open>
  Reference semantics used to state the properties: call one method \<open>m\<close> of every command
  of the sequence, in order and unconditionally, collecting the returned booleans.
\<close>

fun call_all ::
  "('rt Command \<Rightarrow> 'rt \<Rightarrow> bool \<times> 'rt) \<Rightarrow> 'rt CommandSequence \<Rightarrow> 'rt \<Rightarrow> bool list \<times> 'rt"
where
  "call_all m [] rt = ([], rt)"
| "call_all m (c # cs) rt =
     (case m c rt of (r, rt1) \<Rightarrow>
        (case call_all m cs rt1 of (rs, rt2) \<Rightarrow> (r # rs, rt2)))"

text \<open>
  An instrumented command for concrete runs: the runtime state is a log, and each method
  appends its own tag before returning the given result.
\<close>

definition logging_command :: "string \<Rightarrow> bool \<Rightarrow> bool \<Rightarrow> (string list) Command" where
  "logging_command name ok fin =
     \<lparr> Execute = (\<lambda>rt. (ok, rt @ [''Execute '' @ name])),
       Finish = (\<lambda>rt. (fin, rt @ [''Finish '' @ name])) \<rparr>"

text \<open>
  The part of the abstract \<open>RuntimeState\<close> interface used by the dispatch commands.
\<close>

record 'rt RuntimeState =
  DispatchExecute :: "string \<Rightarrow> 'rt \<Rightarrow> bool \<times> 'rt"
  IsQueueError :: "'rt \<Rightarrow> bool \<times> 'rt"

text \<open>
  \<^verbatim>\<open>return !rt->DispatchExecute(dispatchId) && rt->IsQueueError();\<close>
  \<open>&&\<close> short-circuits: \<open>IsQueueError\<close> is only asked after a failed dispatch.
\<close>

definition DispatchExecuteErrorCommand_Execute ::
  "'rt RuntimeState \<Rightarrow> string \<Rightarrow> 'rt \<Rightarrow> bool \<times> 'rt"
where
  "DispatchExecuteErrorCommand_Execute ops dispatchId rt =
     (case DispatchExecute ops dispatchId rt of
        (d, rt1) \<Rightarrow> if d then (False, rt1) else IsQueueError ops rt1)"

text \<open>
  A small concrete runtime: the state records whether the queue is in the error state and
  which calls were made; a dispatch whose name is \<open>''bad''\<close> fails and raises the queue
  error, a dispatch named \<open>''lost''\<close> fails without one.
\<close>

definition toy_runtime :: "(bool \<times> string list) RuntimeState" where
  "toy_runtime =
     \<lparr> DispatchExecute = (\<lambda>d (qe, log).
          if d = ''bad'' then (False, (True, log @ [''DispatchExecute'']))
          else if d = ''lost'' then (False, (qe, log @ [''DispatchExecute'']))
          else (True, (qe, log @ [''DispatchExecute'']))),
       IsQueueError = (\<lambda>(qe, log). (qe, (qe, log @ [''IsQueueError'']))) \<rparr>"

section \<open>Memory-fence conformance test (MemoryFenceTest)\<close>

text \<open>
  The opcodes the test distinguishes, and one constructor for every other enumerator of
  \<open>BrigOpcode\<close> (declared in Brig.h, which is not part of the sources), by its number.
\<close>

datatype BrigOpcode =
    BRIG_OPCODE_LD | BRIG_OPCODE_ST | BRIG_OPCODE_MEMFENCE | BRIG_OPCODE_OTHER nat

text \<open>
  \<open>hexl::Value\<close> is declared outside the sources; it is constructed from a value type tag
  and a 64-bit payload, which is all the test uses.
\<close>

datatype ValueType = MV_UINT32 | MV_UINT64

datatype Value = Value ValueType "64 word"

definition workgroupSizeX :: "32 word" where
  "workgroupSizeX = 256"

definition GetInputValueForWI :: "BrigOpcode \<Rightarrow> 64 word \<Rightarrow> 64 word" where
  "GetInputValueForWI opcode wi = (case opcode of BRIG_OPCODE_ST \<Rightarrow> wi | _ \<Rightarrow> wi)"

definition ExpectedResult :: "BrigOpcode \<Rightarrow> 64 word \<Rightarrow> Value" where
  "ExpectedResult opcode i =
     (case opcode of
        BRIG_OPCODE_LD \<Rightarrow> Value MV_UINT32 i
      | BRIG_OPCODE_ST \<Rightarrow> Value MV_UINT32 (ucast (workgroupSizeX - 1))
      | _ \<Rightarrow> Value MV_UINT32 2)"

section \<open>BRIG data types\<close>

text \<open>
  The enumerators of \<open>BrigType\<close> the sources name (Brig.h itself is not part of the
  sources): the scalar bit, unsigned, signed and floating types and the packed types of the
  test-data factory.
\<close>

datatype BrigType =
    BRIG_TYPE_NONE
  | BRIG_TYPE_B1 | BRIG_TYPE_B8 | BRIG_TYPE_B16 | BRIG_TYPE_B32 | BRIG_TYPE_B64 | BRIG_TYPE_B128
  | BRIG_TYPE_U8 | BRIG_TYPE_U16 | BRIG_TYPE_U32 | BRIG_TYPE_U64
  | BRIG_TYPE_S8 | BRIG_TYPE_S16 | BRIG_TYPE_S32 | BRIG_TYPE_S64
  | BRIG_TYPE_F16 | BRIG_TYPE_F32 | BRIG_TYPE_F64
  | BRIG_TYPE_S8X4 | BRIG_TYPE_S8X8 | BRIG_TYPE_S8X16 | BRIG_TYPE_S16X2 | BRIG_TYPE_S16X4
  | BRIG_TYPE_S16X8 | BRIG_TYPE_S32X2 | BRIG_TYPE_S32X4 | BRIG_TYPE_S64X2
  | BRIG_TYPE_U8X4 | BRIG_TYPE_U8X8 | BRIG_TYPE_U8X16 | BRIG_TYPE_U16X2 | BRIG_TYPE_U16X4
  | BRIG_TYPE_U16X8 | BRIG_TYPE_U32X2 | BRIG_TYPE_U32X4 | BRIG_TYPE_U64X2
  | BRIG_TYPE_F16X2 | BRIG_TYPE_F16X4 | BRIG_TYPE_F16X8 | BRIG_TYPE_F32X2 | BRIG_TYPE_F32X4
  | BRIG_TYPE_F64X2

text \<open>
  Modelled from the spec: the type predicates \<open>isSignedType\<close>, \<open>isUnsignedType\<close>,
  \<open>isIntType\<close> and \<open>isFloatType\<close> of the external instruction-set library
  (\<open>HSAIL_ASM\<close>), which the sources only import.  They hold of the scalar signed, the scalar
  unsigned, the scalar integer and the scalar floating types.
\<close>

definition isSignedType :: "BrigType \<Rightarrow> bool" where
  "isSignedType t =
     (t = BRIG_TYPE_S8 \<or> t = BRIG_TYPE_S16 \<or> t = BRIG_TYPE_S32 \<or> t = BRIG_TYPE_S64)"

definition isUnsignedType :: "BrigType \<Rightarrow> bool" where
  "isUnsignedType t =
     (t = BRIG_TYPE_U8 \<or> t = BRIG_TYPE_U16 \<or> t = BRIG_TYPE_U32 \<or> t = BRIG_TYPE_U64)"

definition isIntType :: "BrigType \<Rightarrow> bool" where
  "isIntType t = (isSignedType t \<or> isUnsignedType t)"

definition isFloatType :: "BrigType \<Rightarrow> bool" where
  "isFloatType t = (t = BRIG_TYPE_F16 \<or> t = BRIG_TYPE_F32 \<or> t = BRIG_TYPE_F64)"

section \<open>Rounding test cardinality (HSAILTestGenEmulator.cpp)\<close>

definition ROUNDING_TESTS_NUM :: nat where
  "ROUNDING_TESTS_NUM = 12"

definition getRoundingTestsNum :: "BrigType \<Rightarrow> nat" where
  "getRoundingTestsNum dstType =
     (if isSignedType dstType \<or> isUnsignedType dstType then ROUNDING_TESTS_NUM else 1)"

section \<open>Operand slots of the test-data provider (TestDataProvider)\<close>

datatype error = AssertionFailed

text \<open>
  The static members of \<open>TestDataProvider\<close>, and \<open>OperandTestData::rndTestNum\<close>, which
  \<open>TestDataProvider::init\<close> sets through \<open>OperandTestData::init\<close>.
\<close>

record statics =
  wavesize :: nat
  maxGridSize :: nat
  groupTests :: bool
  groupImms :: bool
  enableF16 :: bool
  enableFtzF16 :: bool
  rndTestNum :: nat

definition MAX_RND_TEST_TRY :: nat where
  "MAX_RND_TEST_TRY = 256"

definition MAX_RND_TEST_NUM :: nat where
  "MAX_RND_TEST_NUM = 64"

text \<open>
  \<open>TestDataProvider::init\<close>.  The constant \<open>MAX_GRID_SIZE\<close> is declared in the header,
  which is not part of the sources, and is a parameter here.
  \<open>OperandTestData::init\<close> asserts \<open>rndNum <= MAX_RND_TEST_NUM\<close>.
\<close>

definition TestDataProvider_init ::
  "nat \<Rightarrow> bool \<Rightarrow> bool \<Rightarrow> nat \<Rightarrow> nat \<Rightarrow> nat \<Rightarrow> bool \<Rightarrow> bool \<Rightarrow> error + statics"
where
  "TestDataProvider_init MAX_GRID_SIZE grpTests grpImms rndNum ws maxGridSz testF16 testFtzF16 =
     (if \<not> rndNum \<le> MAX_RND_TEST_NUM then Inl AssertionFailed
      else Inr \<lparr> wavesize = ws,
                 maxGridSize = (if maxGridSz > 0 then maxGridSz else MAX_GRID_SIZE),
                 groupTests = grpTests,
                 groupImms = (grpTests \<and> grpImms),
                 enableF16 = testF16,
                 enableFtzF16 = testFtzF16,
                 rndTestNum = rndNum \<rparr>)"

text \<open>The three generators (iteration buckets) a provider owns.\<close>

datatype TestDataGenerator = constOperands | mutableOperands | lockedOperands

text \<open>
  \<open>TestDataProvider::registerOperand\<close>.  \<open>testData[i].registerData(generator, dim)\<close> is
  declared in the header; the model records, for slot \<open>i\<close>, the generator chosen and
  \<open>dim\<close>.
\<close>

definition registerOperand ::
  "statics \<Rightarrow> (nat \<rightharpoonup> TestDataGenerator \<times> nat) \<Rightarrow> nat \<Rightarrow> nat \<Rightarrow> bool \<Rightarrow> bool
     \<Rightarrow> (nat \<rightharpoonup> TestDataGenerator \<times> nat)"
where
  "registerOperand st testData i dim isConst lockConst =
     (let generator =
        (if isConst \<and> groupImms st \<and> \<not> lockConst then constOperands
         else if \<not> isConst \<and> groupTests st then mutableOperands
         else lockedOperands)
      in testData(i \<mapsto> (generator, dim)))"

text \<open>
  The bucket policy in the words of the specification: a constant-foldable slot with
  grouping of immediates enabled (and not lock-const) goes to the constants bucket; else,
  if general grouping is enabled, to the mutable bucket; else to the locked bucket.
\<close>

definition spec_bucket_policy :: "statics \<Rightarrow> bool \<Rightarrow> bool \<Rightarrow> TestDataGenerator" where
  "spec_bucket_policy st isConst lockConst =
     (if isConst \<and> groupImms st \<and> \<not> lockConst then constOperands
      else if groupTests st then mutableOperands
      else lockedOperands)"

section \<open>The value model (Val) and the emulator's sentinels\<close>

text \<open>
  A \<open>Val\<close> is a type tag with up to 128 bits of payload (\<open>num\<close>, two 64-bit halves, low
  half first), or a vector of 2 to 4 scalar values held by a shared \<open>ValVector\<close> of four
  slots.  The class declaration (HSAILTestGenVal.h) is not part of the sources.
\<close>

type_synonym b128_t = "64 word \<times> 64 word"

datatype Val = Scalar BrigType b128_t | Vector nat "(BrigType \<times> b128_t) list"

text \<open>
  Modelled from the spec: the default constructor \<open>Val()\<close> makes the empty value, "a
  distinguished state representing no value": the tag \<open>BRIG_TYPE_NONE\<close> and cleared bits
  (as \<open>setProps(BRIG_TYPE_NONE); num.clear()\<close> in the vector constructor).
\<close>

definition Val_none :: Val where
  "Val_none = Scalar BRIG_TYPE_NONE (0, 0)"

definition isVector :: "Val \<Rightarrow> bool" where
  "isVector v = (case v of Scalar _ _ \<Rightarrow> False | Vector _ _ \<Rightarrow> True)"

definition getType :: "Val \<Rightarrow> BrigType" where
  "getType v = (case v of Scalar t _ \<Rightarrow> t | Vector _ _ \<Rightarrow> BRIG_TYPE_NONE)"

definition num :: "Val \<Rightarrow> b128_t" where
  "num v = (case v of Scalar _ n \<Rightarrow> n | Vector _ _ \<Rightarrow> (0, 0))"

text \<open>Modelled from the spec: \<open>Val::empty()\<close>, true of the empty value only.\<close>

definition Val_empty :: "Val \<Rightarrow> bool" where
  "Val_empty v = (\<not> isVector v \<and> getType v = BRIG_TYPE_NONE)"

text \<open>
  The four "no definite answer" results of the emulator:
  \<^verbatim>\<open>static Val undefValue()    { return Val(); }\<close>
  \<^verbatim>\<open>static Val unimplemented() { return Val(); }\<close>
  \<^verbatim>\<open>static Val emptyDstValue() { return Val(); }\<close>
  \<^verbatim>\<open>static Val emptyMemValue() { return Val(); }\<close>
\<close>

definition undefValue :: Val where
  "undefValue = Val_none"

definition unimplemented :: Val where
  "unimplemented = Val_none"

definition emptyDstValue :: Val where
  "emptyDstValue = Val_none"

definition emptyMemValue :: Val where
  "emptyMemValue = Val_none"

section \<open>The native floating types (IEEE-754 binary16, binary32, binary64)\<close>

text \<open>
  The emulator computes with the C++ types \<open>f16_t\<close>, \<open>f32_t\<close> (\<open>float\<close>) and \<open>f64_t\<close>
  (\<open>double\<close>); a function template over \<open>T\<close> takes the type as an argument here.  A
  value of such a type is its bit pattern, held in the low bits of a 64-bit word.  The
  arithmetic of the language on these types is IEEE-754 arithmetic with rounding to
  nearest, ties to even; it is written out below on the bit patterns.
\<close>

datatype fp_t = f16_t | f32_t | f64_t

definition sizeof :: "fp_t \<Rightarrow> nat" where
  "sizeof T = (case T of f16_t \<Rightarrow> 2 | f32_t \<Rightarrow> 4 | f64_t \<Rightarrow> 8)"

definition mant_bits :: "fp_t \<Rightarrow> nat" where
  "mant_bits T = (case T of f16_t \<Rightarrow> 10 | f32_t \<Rightarrow> 23 | f64_t \<Rightarrow> 52)"

definition exp_bits :: "fp_t \<Rightarrow> nat" where
  "exp_bits T = (case T of f16_t \<Rightarrow> 5 | f32_t \<Rightarrow> 8 | f64_t \<Rightarrow> 11)"

text \<open>The three fields of a bit pattern: mantissa, biased exponent and sign.\<close>

definition getMantissa :: "fp_t \<Rightarrow> 64 word \<Rightarrow> nat" where
  "getMantissa T x = unat x mod 2 ^ mant_bits T"

definition getExponent :: "fp_t \<Rightarrow> 64 word \<Rightarrow> nat" where
  "getExponent T x = (unat x div 2 ^ mant_bits T) mod 2 ^ exp_bits T"

definition getSign :: "fp_t \<Rightarrow> 64 word \<Rightarrow> nat" where
  "getSign T x = (unat x div 2 ^ (mant_bits T + exp_bits T)) mod 2"

definition EXPONENT_MAX :: "fp_t \<Rightarrow> nat" where
  "EXPONENT_MAX T = 2 ^ exp_bits T - 1"

text \<open>
  Modelled from the spec: the "IEEE-754 classification" predicates of the floating-point
  property class (\<open>props()\<close>), whose header is not part of the sources.
\<close>

definition props_isNan :: "fp_t \<Rightarrow> 64 word \<Rightarrow> bool" where
  "props_isNan T x = (getExponent T x = EXPONENT_MAX T \<and> getMantissa T x \<noteq> 0)"

definition props_isInf :: "fp_t \<Rightarrow> 64 word \<Rightarrow> bool" where
  "props_isInf T x = (getExponent T x = EXPONENT_MAX T \<and> getMantissa T x = 0)"

definition props_isZero :: "fp_t \<Rightarrow> 64 word \<Rightarrow> bool" where
  "props_isZero T x = (getExponent T x = 0 \<and> getMantissa T x = 0)"

definition props_isNegative :: "fp_t \<Rightarrow> 64 word \<Rightarrow> bool" where
  "props_isNegative T x = (getSign T x = 1)"

definition props_isPositive :: "fp_t \<Rightarrow> 64 word \<Rightarrow> bool" where
  "props_isPositive T x = (getSign T x = 0)"

definition props_isPositiveZero :: "fp_t \<Rightarrow> 64 word \<Rightarrow> bool" where
  "props_isPositiveZero T x = (props_isZero T x \<and> props_isPositive T x)"

definition props_isNegativeZero :: "fp_t \<Rightarrow> 64 word \<Rightarrow> bool" where
  "props_isNegativeZero T x = (props_isZero T x \<and> props_isNegative T x)"

definition props_isPositiveInf :: "fp_t \<Rightarrow> 64 word \<Rightarrow> bool" where
  "props_isPositiveInf T x = (props_isInf T x \<and> props_isPositive T x)"

definition props_isNegativeInf :: "fp_t \<Rightarrow> 64 word \<Rightarrow> bool" where
  "props_isNegativeInf T x = (props_isInf T x \<and> props_isNegative T x)"

text \<open>
  The magnitude of a bit pattern, counted in units of the smallest subnormal, so that it
  is a natural number; \<open>fp_unit\<close> is the magnitude of 1.0.  An infinity gets a magnitude
  above every finite one, so that the order of the signed magnitudes is the order of the
  values for every pattern that is not a NaN.
\<close>

definition fp_unit :: "fp_t \<Rightarrow> nat" where
  "fp_unit T = 2 ^ (2 ^ (exp_bits T - 1) - 1 + mant_bits T - 1)"

definition fp_magnitude :: "fp_t \<Rightarrow> 64 word \<Rightarrow> nat" where
  "fp_magnitude T x =
     (if getExponent T x = 0 then getMantissa T x
      else (2 ^ mant_bits T + getMantissa T x) * 2 ^ (getExponent T x - 1))"

definition fp_value :: "fp_t \<Rightarrow> 64 word \<Rightarrow> int" where
  "fp_value T x =
     (if props_isNegative T x then - int (fp_magnitude T x) else int (fp_magnitude T x))"

text \<open>The number of binary digits of a natural number.\<close>

fun bit_length :: "nat \<Rightarrow> nat" where
  "bit_length n = (if n = 0 then 0 else Suc (bit_length (n div 2)))"

declare bit_length.simps [simp del]

definition fp_sign_bit :: "fp_t \<Rightarrow> bool \<Rightarrow> nat" where
  "fp_sign_bit T neg = (if neg then 2 ^ (mant_bits T + exp_bits T) else 0)"

text \<open>
  Rounding a magnitude \<open>m\<close> (in units) to the nearest representable one, ties to even,
  and encoding it (exponent and mantissa fields, then with the sign): \<open>k\<close> low digits
  are dropped, \<open>q\<close> is the significand kept and \<open>r\<close> the part dropped; a result
  beyond the largest finite value is the infinity.
\<close>

definition fp_round_mag :: "fp_t \<Rightarrow> nat \<Rightarrow> nat" where
  "fp_round_mag T m =
     (let k = bit_length m - (mant_bits T + 1);
          q = m div 2 ^ k;
          r = m mod 2 ^ k;
          q' = (if 2 * r > 2 ^ k \<or> (2 * r = 2 ^ k \<and> odd q) then q + 1 else q)
      in min (k * 2 ^ mant_bits T + q') (EXPONENT_MAX T * 2 ^ mant_bits T))"

definition fp_round :: "fp_t \<Rightarrow> bool \<Rightarrow> nat \<Rightarrow> 64 word" where
  "fp_round T neg m = word_of_nat (fp_round_mag T m + fp_sign_bit T neg)"

definition fp_nan :: "fp_t \<Rightarrow> 64 word" where
  "fp_nan T = word_of_nat (EXPONENT_MAX T * 2 ^ mant_bits T + 2 ^ (mant_bits T - 1))"

definition fp_zero :: "fp_t \<Rightarrow> bool \<Rightarrow> 64 word" where
  "fp_zero T neg = word_of_nat (fp_sign_bit T neg)"

text \<open>\<open>a + b\<close>, \<open>-a\<close> and \<open>a - b\<close> on \<open>T\<close>.\<close>

definition fp_add :: "fp_t \<Rightarrow> 64 word \<Rightarrow> 64 word \<Rightarrow> 64 word" where
  "fp_add T a b =
     (if props_isNan T a \<or> props_isNan T b then fp_nan T
      else if props_isInf T a \<and> props_isInf T b \<and> props_isNegative T a \<noteq> props_isNegative T b
        then fp_nan T
      else if props_isInf T a then a
      else if props_isInf T b then b
      else (let s = fp_value T a + fp_value T b in
            if s = 0 then fp_zero T (props_isNegative T a \<and> props_isNegative T b)
            else fp_round T (s < 0) (nat \<bar>s\<bar>)))"

definition fp_neg :: "fp_t \<Rightarrow> 64 word \<Rightarrow> 64 word" where
  "fp_neg T a = a XOR word_of_nat (fp_sign_bit T True)"

definition fp_sub :: "fp_t \<Rightarrow> 64 word \<Rightarrow> 64 word \<Rightarrow> 64 word" where
  "fp_sub T a b = fp_add T a (fp_neg T b)"

text \<open>
  The conversion of an integer to \<open>T\<close> (\<open>(T)i\<close>, and the implicit one in \<open>x + 1\<close>), and
  the constant \<open>0.5f\<close> converted to \<open>T\<close>.
\<close>

definition fp_of_int :: "fp_t \<Rightarrow> int \<Rightarrow> 64 word" where
  "fp_of_int T i =
     (if i = 0 then fp_zero T False else fp_round T (i < 0) (nat \<bar>i\<bar> * fp_unit T))"

definition fp_half :: "fp_t \<Rightarrow> 64 word" where
  "fp_half T = fp_round T False (fp_unit T div 2)"

text \<open>\<open>a <= b\<close>, \<open>a < b\<close> and \<open>a == b\<close> on \<open>T\<close>: false when an operand is a NaN.\<close>

definition fp_le :: "fp_t \<Rightarrow> 64 word \<Rightarrow> 64 word \<Rightarrow> bool" where
  "fp_le T a b = (\<not> props_isNan T a \<and> \<not> props_isNan T b \<and> fp_value T a \<le> fp_value T b)"

definition fp_lt :: "fp_t \<Rightarrow> 64 word \<Rightarrow> 64 word \<Rightarrow> bool" where
  "fp_lt T a b = (\<not> props_isNan T a \<and> \<not> props_isNan T b \<and> fp_value T a < fp_value T b)"

definition fp_eq :: "fp_t \<Rightarrow> 64 word \<Rightarrow> 64 word \<Rightarrow> bool" where
  "fp_eq T a b = (\<not> props_isNan T a \<and> \<not> props_isNan T b \<and> fp_value T a = fp_value T b)"

text \<open>
  The conversion of a value of \<open>T\<close> to an integer (\<open>static_cast<s64_t>(v)\<close>), which
  truncates towards zero, and the fractional part \<open>std::modf\<close> returns, which has the
  sign of its argument.
\<close>

definition fp_trunc :: "fp_t \<Rightarrow> 64 word \<Rightarrow> int" where
  "fp_trunc T a =
     (if props_isNegative T a then - int (fp_magnitude T a div fp_unit T)
      else int (fp_magnitude T a div fp_unit T))"

definition fp_modf :: "fp_t \<Rightarrow> 64 word \<Rightarrow> 64 word" where
  "fp_modf T a =
     (if props_isNan T a then a
      else if props_isInf T a then fp_zero T (props_isNegative T a)
      else fp_round T (props_isNegative T a) (fp_magnitude T a mod fp_unit T))"

section \<open>Floating-point values held in a Val\<close>

text \<open>
  Modelled from the spec: \<open>getBrigTypeNumBits\<close> of the external instruction-set library,
  the width of a type in bits.
\<close>

definition getBrigTypeNumBits :: "BrigType \<Rightarrow> nat" where
  "getBrigTypeNumBits t =
     (case t of
        BRIG_TYPE_NONE \<Rightarrow> 0
      | BRIG_TYPE_B1 \<Rightarrow> 1
      | BRIG_TYPE_B8 \<Rightarrow> 8 | BRIG_TYPE_U8 \<Rightarrow> 8 | BRIG_TYPE_S8 \<Rightarrow> 8
      | BRIG_TYPE_B16 \<Rightarrow> 16 | BRIG_TYPE_U16 \<Rightarrow> 16 | BRIG_TYPE_S16 \<Rightarrow> 16 | BRIG_TYPE_F16 \<Rightarrow> 16
      | BRIG_TYPE_B32 \<Rightarrow> 32 | BRIG_TYPE_U32 \<Rightarrow> 32 | BRIG_TYPE_S32 \<Rightarrow> 32 | BRIG_TYPE_F32 \<Rightarrow> 32
      | BRIG_TYPE_S8X4 \<Rightarrow> 32 | BRIG_TYPE_S16X2 \<Rightarrow> 32 | BRIG_TYPE_U8X4 \<Rightarrow> 32
      | BRIG_TYPE_U16X2 \<Rightarrow> 32 | BRIG_TYPE_F16X2 \<Rightarrow> 32
      | BRIG_TYPE_B64 \<Rightarrow> 64 | BRIG_TYPE_U64 \<Rightarrow> 64 | BRIG_TYPE_S64 \<Rightarrow> 64 | BRIG_TYPE_F64 \<Rightarrow> 64
      | BRIG_TYPE_S8X8 \<Rightarrow> 64 | BRIG_TYPE_S16X4 \<Rightarrow> 64 | BRIG_TYPE_S32X2 \<Rightarrow> 64
      | BRIG_TYPE_U8X8 \<Rightarrow> 64 | BRIG_TYPE_U16X4 \<Rightarrow> 64 | BRIG_TYPE_U32X2 \<Rightarrow> 64
      | BRIG_TYPE_F16X4 \<Rightarrow> 64 | BRIG_TYPE_F32X2 \<Rightarrow> 64
      | _ \<Rightarrow> 128)"

text \<open>
  Modelled from the spec: the constructor \<open>Val(type, u64)\<close>; "a scalar Val's raw bits are
  always exactly sized to its type", so the bits beyond the type's width are dropped.
\<close>

definition Val_of :: "BrigType \<Rightarrow> 64 word \<Rightarrow> Val" where
  "Val_of t x = Scalar t (take_bit (getBrigTypeNumBits t) x, 0)"

definition fp_type :: "fp_t \<Rightarrow> BrigType" where
  "fp_type T =
     (case T of f16_t \<Rightarrow> BRIG_TYPE_F16 | f32_t \<Rightarrow> BRIG_TYPE_F32 | f64_t \<Rightarrow> BRIG_TYPE_F64)"

text \<open>
  The constructors \<open>Val(f16_t)\<close>, \<open>Val(f32_t)\<close>, \<open>Val(f64_t)\<close>, and the way back: the
  typed getters \<open>f32()\<close>, \<open>f64()\<close>, \<open>num.get<T>()\<close> and the conversion of a \<open>Val\<close> to
  \<open>T\<close> read the low bits of the payload.
\<close>

definition Val_f :: "fp_t \<Rightarrow> 64 word \<Rightarrow> Val" where
  "Val_f T x = Scalar (fp_type T) (x, 0)"

definition Val_get :: "Val \<Rightarrow> 64 word" where
  "Val_get v = fst (num v)"

definition getAsB64 :: "Val \<Rightarrow> nat \<Rightarrow> 64 word" where
  "getAsB64 v idx = (if idx = 0 then fst (num v) else snd (num v))"

definition isFloat :: "Val \<Rightarrow> bool" where
  "isFloat v = (\<not> isVector v \<and> isFloatType (getType v))"

definition isF16 :: "Val \<Rightarrow> bool" where
  "isF16 v = (getType v = BRIG_TYPE_F16)"

definition isF32 :: "Val \<Rightarrow> bool" where
  "isF32 v = (getType v = BRIG_TYPE_F32)"

definition isF64 :: "Val \<Rightarrow> bool" where
  "isF64 v = (getType v = BRIG_TYPE_F64)"

text \<open>
  \<^verbatim>\<open>return isFloat() && (isF16()? num.get<f16_t>().props().property() :\<close>
  \<^verbatim>\<open>                     isF32()? num.get<f32_t>().props().property() :\<close>
  \<^verbatim>\<open>                              num.get<f64_t>().props().property());\<close>
\<close>

definition GET_FLOAT_PROP :: "(fp_t \<Rightarrow> 64 word \<Rightarrow> bool) \<Rightarrow> Val \<Rightarrow> bool" where
  "GET_FLOAT_PROP property v =
     (isFloat v \<and> (if isF16 v then property f16_t (Val_get v)
                    else if isF32 v then property f32_t (Val_get v)
                    else property f64_t (Val_get v)))"

definition isPositive :: "Val \<Rightarrow> bool" where
  "isPositive = GET_FLOAT_PROP props_isPositive"

definition isNegative :: "Val \<Rightarrow> bool" where
  "isNegative = GET_FLOAT_PROP props_isNegative"

definition isZero :: "Val \<Rightarrow> bool" where
  "isZero = GET_FLOAT_PROP props_isZero"

definition isPositiveZero :: "Val \<Rightarrow> bool" where
  "isPositiveZero = GET_FLOAT_PROP props_isPositiveZero"

definition isNegativeZero :: "Val \<Rightarrow> bool" where
  "isNegativeZero = GET_FLOAT_PROP props_isNegativeZero"

definition isPositiveInf :: "Val \<Rightarrow> bool" where
  "isPositiveInf = GET_FLOAT_PROP props_isPositiveInf"

definition isNegativeInf :: "Val \<Rightarrow> bool" where
  "isNegativeInf = GET_FLOAT_PROP props_isNegativeInf"

definition isNan :: "Val \<Rightarrow> bool" where
  "isNan = GET_FLOAT_PROP props_isNan"

text \<open>The native type a floating \<open>Val\<close> holds, chosen as in the macros above.\<close>

definition Val_T :: "Val \<Rightarrow> fp_t" where
  "Val_T v = (if isF16 v then f16_t else if isF32 v then f32_t else f64_t)"

text \<open>\<open>GET_FLOAT_CONST\<close>: \<open>assert(isFloat())\<close>, then the constant of the value's type.\<close>

definition getPositiveZero :: "Val \<Rightarrow> error + Val" where
  "getPositiveZero v =
     (if \<not> isFloat v then Inl AssertionFailed
      else Inr (Val_f (Val_T v) (fp_zero (Val_T v) False)))"

definition getNegativeZero :: "Val \<Rightarrow> error + Val" where
  "getNegativeZero v =
     (if \<not> isFloat v then Inl AssertionFailed
      else Inr (Val_f (Val_T v) (fp_zero (Val_T v) True)))"

text \<open>
  The helpers of \<open>Val\<close> and of its property class that the sources call and do not
  define.  Nothing is assumed of them: the emulator functions take them as a parameter.
\<close>

record helpers =
  getNormalizedFract :: "Val \<Rightarrow> int \<Rightarrow> nat"
  isNatural :: "Val \<Rightarrow> bool"
  isRegularPositive :: "Val \<Rightarrow> bool"
  isRegularNegative :: "Val \<Rightarrow> bool"
  props_ulp :: "fp_t \<Rightarrow> 64 word \<Rightarrow> int \<Rightarrow> 64 word"

text \<open>
  \<open>Val::ulp\<close>:
  \<^verbatim>\<open>assert(isFloat());\<close>
  \<^verbatim>\<open>return isF16()? Val(f16_t(num.get<f16_t>().props().ulp(delta))) : ...\<close>
\<close>

definition Val_ulp :: "helpers \<Rightarrow> Val \<Rightarrow> int \<Rightarrow> error + Val" where
  "Val_ulp h v delta =
     (if \<not> isFloat v then Inl AssertionFailed
      else Inr (if isF16 v then Val_f f16_t (props_ulp h f16_t (Val_get v) delta)
                else if isF32 v then Val_f f32_t (props_ulp h f32_t (Val_get v) delta)
                else Val_f f64_t (props_ulp h f64_t (Val_get v) delta)))"

section \<open>Instruction emulator: integer boundaries and float-to-integer conversion\<close>

text \<open>
  The rounding modes of \<open>AluMod\<close> (its class is declared in a header that is not part of
  the sources).  \<open>getRounding()\<close>, \<open>isSat()\<close> and \<open>isSignaling()\<close> are its three
  queries; they are independent fields here, so nothing is assumed about how the class
  derives the last two.
\<close>

datatype Rounding =
    ROUNDING_NONE | ROUNDING_NEAR | ROUNDING_ZERO | ROUNDING_UP | ROUNDING_DOWN
  | ROUNDING_NEARI | ROUNDING_ZEROI | ROUNDING_UPI | ROUNDING_DOWNI
  | ROUNDING_NEARI_SAT | ROUNDING_ZEROI_SAT | ROUNDING_UPI_SAT | ROUNDING_DOWNI_SAT
  | ROUNDING_SNEARI | ROUNDING_SZEROI | ROUNDING_SUPI | ROUNDING_SDOWNI
  | ROUNDING_SNEARI_SAT | ROUNDING_SZEROI_SAT | ROUNDING_SUPI_SAT | ROUNDING_SDOWNI_SAT

record AluMod =
  getRounding :: Rounding
  isSat :: bool
  isSignaling :: bool

text \<open>
  Both \<open>switch\<close> statements over the rounding mode group the case labels in fours
  (\<open>NEARI\<close>, \<open>NEARI_SAT\<close>, \<open>SNEARI\<close>, \<open>SNEARI_SAT\<close>, and so on) and \<open>assert(false)\<close> by
  default; \<open>rounding_kind\<close> names the group of a label.
\<close>

datatype RoundingKind = NEARI | ZEROI | UPI | DOWNI | OTHER

definition rounding_kind :: "Rounding \<Rightarrow> RoundingKind" where
  "rounding_kind r =
     (case r of
        ROUNDING_NEARI \<Rightarrow> NEARI | ROUNDING_NEARI_SAT \<Rightarrow> NEARI
      | ROUNDING_SNEARI \<Rightarrow> NEARI | ROUNDING_SNEARI_SAT \<Rightarrow> NEARI
      | ROUNDING_ZEROI \<Rightarrow> ZEROI | ROUNDING_ZEROI_SAT \<Rightarrow> ZEROI
      | ROUNDING_SZEROI \<Rightarrow> ZEROI | ROUNDING_SZEROI_SAT \<Rightarrow> ZEROI
      | ROUNDING_UPI \<Rightarrow> UPI | ROUNDING_UPI_SAT \<Rightarrow> UPI
      | ROUNDING_SUPI \<Rightarrow> UPI | ROUNDING_SUPI_SAT \<Rightarrow> UPI
      | ROUNDING_DOWNI \<Rightarrow> DOWNI | ROUNDING_DOWNI_SAT \<Rightarrow> DOWNI
      | ROUNDING_SDOWNI \<Rightarrow> DOWNI | ROUNDING_SDOWNI_SAT \<Rightarrow> DOWNI
      | _ \<Rightarrow> OTHER)"



text \<open>The boundary constants given as bit patterns (\<open>HEX2F32\<close>, \<open>HEX2F64\<close>).\<close>

definition MAX_U32_F32H :: "64 word" where "MAX_U32_F32H = 0x4f7fffff"
definition MAX_U64_F32H :: "64 word" where "MAX_U64_F32H = 0x5f7fffff"
definition MAX_S32_F32H :: "64 word" where "MAX_S32_F32H = 0x4effffff"
definition MAX_S64_F32H :: "64 word" where "MAX_S64_F32H = 0x5effffff"
definition MIN_S32_F32H :: "64 word" where "MIN_S32_F32H = 0xcf000000"
definition MIN_S64_F32H :: "64 word" where "MIN_S64_F32H = 0xdf000000"
definition MAX_U64_F64H :: "64 word" where "MAX_U64_F64H = 0x43efffffffffffff"
definition MAX_S64_F64H :: "64 word" where "MAX_S64_F64H = 0x43dfffffffffffff"
definition MIN_S64_F64H :: "64 word" where "MIN_S64_F64H = 0xc3e0000000000000"

text \<open>
  \<open>getTypeBoundary_f32\<close> and \<open>getTypeBoundary_f64\<close>; the boundaries written as decimal
  literals in the source (\<open>-128.0f\<close>, \<open>4294967295.0\<close>, ...) are integers that the type
  represents exactly.
\<close>

definition getTypeBoundary_f32 :: "BrigType \<Rightarrow> bool \<Rightarrow> error + 64 word" where
  "getTypeBoundary_f32 t isLo =
     (case t of
        BRIG_TYPE_S8 \<Rightarrow> Inr (if isLo then fp_of_int f32_t (- 128) else fp_of_int f32_t 127)
      | BRIG_TYPE_S16 \<Rightarrow> Inr (if isLo then fp_of_int f32_t (- 32768) else fp_of_int f32_t 32767)
      | BRIG_TYPE_S32 \<Rightarrow> Inr (if isLo then MIN_S32_F32H else MAX_S32_F32H)
      | BRIG_TYPE_S64 \<Rightarrow> Inr (if isLo then MIN_S64_F32H else MAX_S64_F32H)
      | BRIG_TYPE_U8 \<Rightarrow> Inr (if isLo then fp_of_int f32_t 0 else fp_of_int f32_t 255)
      | BRIG_TYPE_U16 \<Rightarrow> Inr (if isLo then fp_of_int f32_t 0 else fp_of_int f32_t 65535)
      | BRIG_TYPE_U32 \<Rightarrow> Inr (if isLo then fp_of_int f32_t 0 else MAX_U32_F32H)
      | BRIG_TYPE_U64 \<Rightarrow> Inr (if isLo then fp_of_int f32_t 0 else MAX_U64_F32H)
      | _ \<Rightarrow> Inl AssertionFailed)"

definition getTypeBoundary_f64 :: "BrigType \<Rightarrow> bool \<Rightarrow> error + 64 word" where
  "getTypeBoundary_f64 t isLo =
     (case t of
        BRIG_TYPE_S8 \<Rightarrow> Inr (if isLo then fp_of_int f64_t (- 128) else fp_of_int f64_t 127)
      | BRIG_TYPE_S16 \<Rightarrow> Inr (if isLo then fp_of_int f64_t (- 32768) else fp_of_int f64_t 32767)
      | BRIG_TYPE_S32 \<Rightarrow>
          Inr (if isLo then fp_of_int f64_t (- 2147483648) else fp_of_int f64_t 2147483647)
      | BRIG_TYPE_S64 \<Rightarrow> Inr (if isLo then MIN_S64_F64H else MAX_S64_F64H)
      | BRIG_TYPE_U8 \<Rightarrow> Inr (if isLo then fp_of_int f64_t 0 else fp_of_int f64_t 255)
      | BRIG_TYPE_U16 \<Rightarrow> Inr (if isLo then fp_of_int f64_t 0 else fp_of_int f64_t 65535)
      | BRIG_TYPE_U32 \<Rightarrow> Inr (if isLo then fp_of_int f64_t 0 else fp_of_int f64_t 4294967295)
      | BRIG_TYPE_U64 \<Rightarrow> Inr (if isLo then fp_of_int f64_t 0 else MAX_U64_F64H)
      | _ \<Rightarrow> Inl AssertionFailed)"

definition getTypeBoundary :: "fp_t \<Rightarrow> BrigType \<Rightarrow> bool \<Rightarrow> error + 64 word" where
  "getTypeBoundary T t isLo =
     (if sizeof T = 4 then getTypeBoundary_f32 t isLo
      else if sizeof T = 8 then getTypeBoundary_f64 t isLo
      else Inl AssertionFailed)"














section \<open>Instruction emulator: rounding test data\<close>

text \<open>Collecting results, the first failure winning.\<close>

fun collect :: "(error + 'a) list \<Rightarrow> error + 'a list" where
  "collect [] = Inr []"
| "collect (x # xs) =
     (case x of
        Inl e \<Rightarrow> Inl e
      | Inr a \<Rightarrow> (case collect xs of Inl e \<Rightarrow> Inl e | Inr as \<Rightarrow> Inr (a # as)))"

text \<open>\<open>Val(x).ulp(delta)\<close> stored back into an array of \<open>T\<close>.\<close>

definition ulp_T :: "helpers \<Rightarrow> fp_t \<Rightarrow> 64 word \<Rightarrow> int \<Rightarrow> error + 64 word" where
  "ulp_T h T x delta =
     (case Val_ulp h (Val_f T x) delta of Inl e \<Rightarrow> Inl e | Inr v \<Rightarrow> Inr (Val_get v))"

text \<open>
  The twelve assignments \<open>dst[0] = lo - 1; dst[1] = Val(lo - 1).ulp(1); ...\<close> that end
  \<open>makeRoundingTestsData\<close>.
\<close>

definition rounding_tests_table ::
  "helpers \<Rightarrow> fp_t \<Rightarrow> 64 word \<Rightarrow> 64 word \<Rightarrow> error + 64 word list"
where
  "rounding_tests_table h T lo hi =
     collect
       [Inr (fp_sub T lo (fp_of_int T 1)),
        ulp_T h T (fp_sub T lo (fp_of_int T 1)) 1,
        ulp_T h T lo (- 1),
        Inr lo,
        ulp_T h T lo 1,
        Inr (fp_add T lo (fp_of_int T 1)),
        Inr (fp_sub T hi (fp_of_int T 1)),
        ulp_T h T hi (- 1),
        Inr hi,
        ulp_T h T hi 1,
        ulp_T h T (fp_add T hi (fp_of_int T 1)) (- 1),
        Inr (fp_add T hi (fp_of_int T 1))]"

text \<open>The twelve points the table holds, given the two boundaries it is built from.\<close>

definition twelve_points :: "helpers \<Rightarrow> fp_t \<Rightarrow> 64 word \<Rightarrow> 64 word \<Rightarrow> 64 word list" where
  "twelve_points h T lo hi =
     [fp_sub T lo (fp_of_int T 1),
      props_ulp h T (fp_sub T lo (fp_of_int T 1)) 1,
      props_ulp h T lo (- 1),
      lo,
      props_ulp h T lo 1,
      fp_add T lo (fp_of_int T 1),
      fp_sub T hi (fp_of_int T 1),
      props_ulp h T hi (- 1),
      hi,
      props_ulp h T hi 1,
      props_ulp h T (fp_add T hi (fp_of_int T 1)) (- 1),
      fp_add T hi (fp_of_int T 1)]"

text \<open>
  \<open>makeRoundingTestsData<T>(dstType, aluMod, dst)\<close>; the array \<open>dst\<close> it fills is the
  list returned.
\<close>

definition makeRoundingTestsData ::
  "fp_t \<Rightarrow> helpers \<Rightarrow> BrigType \<Rightarrow> AluMod \<Rightarrow> error + 64 word list"
where
  "makeRoundingTestsData T h dstType aluMod =
     (if getRoundingTestsNum dstType = 1 then Inr [fp_of_int T 0]
      else (case getTypeBoundary T dstType True of
          Inl e \<Rightarrow> Inl e
        | Inr lo \<Rightarrow>
           (case getTypeBoundary T dstType False of
              Inl e \<Rightarrow> Inl e
            | Inr hi \<Rightarrow>
               (case rounding_kind (getRounding aluMod) of
                  NEARI \<Rightarrow>
                    rounding_tests_table h T (fp_add T lo (fp_half T)) (fp_add T hi (fp_half T))
                | ZEROI \<Rightarrow>
                    rounding_tests_table h T
                      (if fp_lt T (fp_of_int T 0) lo then fp_add T lo (fp_of_int T 1) else lo)
                      (if fp_lt T (fp_of_int T 0) hi then fp_add T hi (fp_of_int T 1) else hi)
                | DOWNI \<Rightarrow>
                    rounding_tests_table h T
                      (fp_add T lo (fp_of_int T 1)) (fp_add T hi (fp_of_int T 1))
                | UPI \<Rightarrow> rounding_tests_table h T lo hi
                | OTHER \<Rightarrow> Inl AssertionFailed))))"

text \<open>
  The rule of the specification for the floor and the ceiling modes, "each add 1 to one
  end": of the two boundaries the table is built from (its entries 3 and 8), exactly one
  is the type's boundary plus one and the other is the type's boundary.
\<close>

definition adds_one_to_one_end :: "fp_t \<Rightarrow> 64 word \<Rightarrow> 64 word \<Rightarrow> 64 word list \<Rightarrow> bool" where
  "adds_one_to_one_end T lo hi dst =
     ((dst ! 3 = fp_add T lo (fp_of_int T 1) \<and> dst ! 8 = hi)
      \<or> (dst ! 3 = lo \<and> dst ! 8 = fp_add T hi (fp_of_int T 1)))"

section \<open>A sample implementation of the helpers, for concrete runs\<close>

text \<open>
  The fraction of \<open>|v| * 2 ^ delta\<close> as a 64-bit fixed-point number; a natural value is a
  finite non-zero ("regular") one without fraction; \<open>ulp\<close> steps through the bit patterns
  in the order of the values.
\<close>

definition ieee_getNormalizedFract :: "Val \<Rightarrow> int \<Rightarrow> nat" where
  "ieee_getNormalizedFract v delta =
     (let m = fp_magnitude (Val_T v) (Val_get v) * 2 ^ nat delta;
          u = fp_unit (Val_T v) * 2 ^ nat (- delta)
      in ((m mod u) * 2 ^ 64) div u)"

definition ieee_isRegular :: "fp_t \<Rightarrow> 64 word \<Rightarrow> bool" where
  "ieee_isRegular T x = (\<not> props_isZero T x \<and> \<not> props_isNan T x \<and> \<not> props_isInf T x)"

definition ieee_ulp :: "fp_t \<Rightarrow> 64 word \<Rightarrow> int \<Rightarrow> 64 word" where
  "ieee_ulp T x delta =
     (let b = int (unat x mod 2 ^ (mant_bits T + exp_bits T));
          k = (if props_isNegative T x then - b else b) + delta
      in word_of_nat (nat \<bar>k\<bar> + fp_sign_bit T (k < 0)))"

definition ieee_helpers :: helpers where
  "ieee_helpers =
     \<lparr> getNormalizedFract = ieee_getNormalizedFract,
       isNatural =
         GET_FLOAT_PROP (\<lambda>T x. ieee_isRegular T x \<and> fp_magnitude T x mod fp_unit T = 0),
       isRegularPositive = GET_FLOAT_PROP (\<lambda>T x. props_isPositive T x \<and> ieee_isRegular T x),
       isRegularNegative = GET_FLOAT_PROP (\<lambda>T x. props_isNegative T x \<and> ieee_isRegular T x),
       props_ulp = ieee_ulp \<rparr>"

section \<open>Equality of values (Val::eq)\<close>

text \<open>
  \<open>ValVector::operator[]\<close> asserts \<open>i < dim\<close>; \<open>Val::operator[]\<close> returns the
  component of a vector and, for a scalar, asserts \<open>i == 0\<close> and returns the value itself.
\<close>

definition getDim :: "Val \<Rightarrow> nat" where
  "getDim v = (case v of Scalar _ _ \<Rightarrow> 1 | Vector dim _ \<Rightarrow> dim)"

definition Val_at :: "Val \<Rightarrow> nat \<Rightarrow> error + Val" where
  "Val_at v i =
     (case v of
        Scalar _ _ \<Rightarrow> if i = 0 then Inr v else Inl AssertionFailed
      | Vector dim val \<Rightarrow>
          if i < dim \<and> i < length val then Inr (Scalar (fst (val ! i)) (snd (val ! i)))
          else Inl AssertionFailed)"

text \<open>
  \<open>Val::eq\<close> on a scalar \<open>this\<close>:
  \<^verbatim>\<open>assert(!empty()); assert(!v.empty());\<close>
  \<^verbatim>\<open>if (getType() != v.getType()) return false;\<close>
  \<^verbatim>\<open>if (isNan()) return v.isNan();\<close>
  \<^verbatim>\<open>return getAsB64(0) == v.getAsB64(0) && getAsB64(1) == v.getAsB64(1);\<close>
\<close>

definition Val_eq_scalar :: "Val \<Rightarrow> Val \<Rightarrow> error + bool" where
  "Val_eq_scalar a v =
     (if Val_empty a then Inl AssertionFailed
      else if Val_empty v then Inl AssertionFailed
      else if getType a \<noteq> getType v then Inr False
      else if isNan a then Inr (isNan v)
      else Inr (getAsB64 a 0 = getAsB64 v 0 \<and> getAsB64 a 1 = getAsB64 v 1))"

text \<open>
  The loop over the components of a vector:
  \<^verbatim>\<open>for (i = 0; i < getDim(); ++i) if (!(*this)[i].eq(v[i])) return false; return true;\<close>
  The components of a vector are scalars.
\<close>

fun Val_eq_loop :: "Val \<Rightarrow> Val \<Rightarrow> nat list \<Rightarrow> error + bool" where
  "Val_eq_loop a v [] = Inr True"
| "Val_eq_loop a v (i # is) =
     (case Val_at a i of
        Inl e \<Rightarrow> Inl e
      | Inr ai \<Rightarrow>
         (case Val_at v i of
            Inl e \<Rightarrow> Inl e
          | Inr vi \<Rightarrow>
             (case Val_eq_scalar ai vi of
                Inl e \<Rightarrow> Inl e
              | Inr r \<Rightarrow> if \<not> r then Inr False else Val_eq_loop a v is)))"

definition Val_eq :: "Val \<Rightarrow> Val \<Rightarrow> error + bool" where
  "Val_eq a v =
     (if Val_empty a then Inl AssertionFailed
      else if Val_empty v then Inl AssertionFailed
      else if isVector a
        then (if getDim a \<noteq> getDim v then Inr False else Val_eq_loop a v [0..<getDim a])
      else Val_eq_scalar a v)"

section \<open>Catalogs of test values (OperandTestDataImpl)\<close>

text \<open>
  A catalog holds \<open>size\<close> standard values followed by \<open>rsize\<close> random ones in the array
  \<open>values\<close>, whose capacity is fixed when it is allocated.  An element of the native type
  \<open>T\<close> of the template is represented by the \<open>Val\<close> the code wraps it in whenever it
  inspects it.  (The fields carry a prime because \<open>size\<close> and \<open>values\<close> are taken.)
\<close>

record OperandTestDataImpl =
  size' :: nat
  rsize :: nat
  values' :: "Val list"

text \<open>
  \<open>val1 == val2\<close> on the native type: the comparison of IEEE-754 for a floating type,
  that of the bits otherwise.
\<close>

definition native_eq :: "Val \<Rightarrow> Val \<Rightarrow> bool" where
  "native_eq val1 val2 =
     (if isFloat val1 then fp_eq (Val_T val1) (Val_get val1) (Val_get val2)
      else num val1 = num val2)"

text \<open>
  \<open>OperandTestDataImpl::eq\<close>, the equality of the catalog: NaNs are equal to each other,
  zeros are equal when their signs are.
\<close>

definition OperandTestDataImpl_eq :: "Val \<Rightarrow> Val \<Rightarrow> bool" where
  "OperandTestDataImpl_eq val1 val2 =
     (if isNan val1 \<or> isNan val2 then isNan val1 \<and> isNan val2
      else if isZero val1 \<and> isZero val2 then isPositiveZero val1 = isPositiveZero val2
      else native_eq val1 val2)"

text \<open>
  \<^verbatim>\<open>for (i = 0; i < size; ++i) if (eq(val, values[i])) return true; return false;\<close>
\<close>

definition isStdValue :: "OperandTestDataImpl \<Rightarrow> Val \<Rightarrow> bool" where
  "isStdValue c val = list_ex (\<lambda>i. OperandTestDataImpl_eq val (values' c ! i)) [0..<size' c]"

text \<open>
  \<open>Val::normalize(false)\<close> and \<open>Val::randomize()\<close> rest on helpers that are not part of
  the sources, and the latter on the state of the C library's \<open>rand()\<close>; both are
  parameters: \<open>nrm\<close>, and \<open>rnd\<close>, which takes the state of the generator and the value
  to randomize and returns the new value and state.

  \<^verbatim>\<open>if (!isStdValue(val)) values[pos++] = Val(val).normalize(false); return pos;\<close>
\<close>

definition addStdValue ::
  "(Val \<Rightarrow> Val) \<Rightarrow> OperandTestDataImpl \<Rightarrow> nat \<Rightarrow> Val \<Rightarrow> nat \<times> OperandTestDataImpl"
where
  "addStdValue nrm c pos val =
     (if \<not> isStdValue c val then (Suc pos, c\<lparr>values' := (values' c)[pos := nrm val]\<rparr>)
      else (pos, c))"

text \<open>The loops \<open>size = addStdValue(size, x)\<close> of the constructor, over the values given.\<close>

fun addStdValues ::
  "(Val \<Rightarrow> Val) \<Rightarrow> OperandTestDataImpl \<Rightarrow> Val list \<Rightarrow> OperandTestDataImpl"
where
  "addStdValues nrm c [] = c"
| "addStdValues nrm c (x # xs) =
     (case addStdValue nrm c (size' c) x of
        (pos, c') \<Rightarrow> addStdValues nrm (c'\<lparr>size' := pos\<rparr>) xs)"

text \<open>
  The loop of \<open>addRndValue\<close>, entered with the first random value:
  \<^verbatim>\<open>for (v = v.randomize(); isStdValue(v) && cnt > 0; v = v.randomize(), --cnt);\<close>
  It returns the last value drawn, the count left and the state of the generator.
\<close>

fun addRndValue_loop ::
  "('g \<Rightarrow> Val \<Rightarrow> Val \<times> 'g) \<Rightarrow> OperandTestDataImpl \<Rightarrow> nat \<Rightarrow> Val \<Rightarrow> 'g \<Rightarrow> Val \<times> nat \<times> 'g"
where
  "addRndValue_loop rnd c 0 v g = (v, 0, g)"
| "addRndValue_loop rnd c (Suc cnt) v g =
     (if isStdValue c v
      then (case rnd g v of (v', g') \<Rightarrow> addRndValue_loop rnd c cnt v' g')
      else (v, Suc cnt, g))"

text \<open>
  \<^verbatim>\<open>Val v(*values); unsigned cnt = MAX_RND_TEST_TRY;\<close>
  \<^verbatim>\<open>for (...);\<close>
  \<^verbatim>\<open>if (cnt > 0) values[size + pos++] = v;\<close>
  \<^verbatim>\<open>return pos;\<close>
\<close>

definition addRndValue ::
  "('g \<Rightarrow> Val \<Rightarrow> Val \<times> 'g) \<Rightarrow> OperandTestDataImpl \<Rightarrow> nat \<Rightarrow> 'g
     \<Rightarrow> nat \<times> OperandTestDataImpl \<times> 'g"
where
  "addRndValue rnd c pos g =
     (case rnd g (values' c ! 0) of
        (v1, g1) \<Rightarrow>
          (case addRndValue_loop rnd c MAX_RND_TEST_TRY v1 g1 of
             (v, cnt, g') \<Rightarrow>
               if cnt > 0 then (Suc pos, c\<lparr>values' := (values' c)[size' c + pos := v]\<rparr>, g')
               else (pos, c, g')))"

text \<open>The loop \<open>for (i = 0; i < rndTestNum; ++i) rsize = addRndValue(rsize);\<close>.\<close>

fun addRndValues ::
  "('g \<Rightarrow> Val \<Rightarrow> Val \<times> 'g) \<Rightarrow> OperandTestDataImpl \<Rightarrow> nat \<Rightarrow> 'g \<Rightarrow> OperandTestDataImpl \<times> 'g"
where
  "addRndValues rnd c 0 g = (c, g)"
| "addRndValues rnd c (Suc n) g =
     (case addRndValue rnd c (rsize c) g of
        (pos, c', g') \<Rightarrow> addRndValues rnd (c'\<lparr>rsize := pos\<rparr>) n g')"

text \<open>
  The constructor \<open>OperandTestDataImpl(sz, vs, base)\<close>, with \<open>vs\<close> the list of the
  \<open>sz\<close> values given, \<open>rndNum\<close> the static \<open>rndTestNum\<close>, and \<open>junk\<close> the content of
  the cells of the new array, which C++ leaves unspecified.
\<close>

definition OperandTestDataImpl_new ::
  "nat \<Rightarrow> (Val \<Rightarrow> Val) \<Rightarrow> ('g \<Rightarrow> Val \<Rightarrow> Val \<times> 'g) \<Rightarrow> Val \<Rightarrow> Val list
     \<Rightarrow> OperandTestDataImpl option \<Rightarrow> 'g \<Rightarrow> error + (OperandTestDataImpl \<times> 'g)"
where
  "OperandTestDataImpl_new rndNum nrm rnd junk vs base g =
     (if \<not> length vs > 0 then Inl AssertionFailed
      else
        (let sz = length vs + (case base of None \<Rightarrow> 0 | Some b \<Rightarrow> size' b);
             c0 = \<lparr> size' = 0, rsize = 0, values' = replicate (sz + rndNum) junk \<rparr>;
             c1 = (case base of
                     None \<Rightarrow> c0
                   | Some b \<Rightarrow> addStdValues nrm c0 (take (size' b) (values' b)));
             c2 = addStdValues nrm c1 vs
         in if \<not> size' c2 > 0 then Inl AssertionFailed
            else Inr (addRndValues rnd c2 rndNum g)))"

text \<open>
  The values the generator yields on successive calls of \<open>randomize\<close>, each applied to
  the value drawn before.
\<close>

fun draws :: "('g \<Rightarrow> Val \<Rightarrow> Val \<times> 'g) \<Rightarrow> 'g \<Rightarrow> Val \<Rightarrow> nat \<Rightarrow> Val list" where
  "draws rnd g v 0 = []"
| "draws rnd g v (Suc n) = (case rnd g v of (v', g') \<Rightarrow> v' # draws rnd g' v' n)"

text \<open>
  The invariant of the last loop of the constructor: none of the random values kept so
  far is a standard value.
\<close>

definition random_values_not_std :: "OperandTestDataImpl \<Rightarrow> bool" where
  "random_values_not_std c =
     (\<forall>i < rsize c. \<not> isStdValue c (values' c ! (size' c + i)))"

section \<open>Theorems: scenario engine\<close>

lemma Finish_loop_call_all:
  "Finish_loop cs result rt =
     (result \<and> (\<forall>r \<in> set (fst (call_all Finish cs rt)). r), snd (call_all Finish cs rt))"
  by (induction cs arbitrary: result rt) (auto split: prod.splits)

lemma length_call_all: "length (fst (call_all m cs rt)) = length cs"
  by (induction cs arbitrary: rt) (simp_all add: case_prod_unfold)

lemma Execute_append_first_failure:
  "CommandSequence_Execute pre rt = (True, rt1) \<Longrightarrow> Execute c rt1 = (False, rt2) \<Longrightarrow>
   CommandSequence_Execute (pre @ c # post) rt = (False, rt2)"
  by (induction pre arbitrary: rt) (auto split: prod.splits if_splits)

lemma Execute_all_succeed:
  "(\<forall>r \<in> set (fst (call_all Execute cs rt)). r) \<Longrightarrow>
   CommandSequence_Execute cs rt = (True, snd (call_all Execute cs rt))"
  by (induction cs arbitrary: rt) (auto split: prod.splits)

lemma Execute_False_first_failure:
  "fst (CommandSequence_Execute cs rt) = False \<Longrightarrow>
   \<exists>pre c post rt1 rt2. cs = pre @ c # post \<and> CommandSequence_Execute pre rt = (True, rt1)
      \<and> Execute c rt1 = (False, rt2)"
proof (induction cs arbitrary: rt)
  case Nil
  then show ?case by simp
next
  case (Cons a cs)
  obtain ok rt' where a: "Execute a rt = (ok, rt')" by (cases "Execute a rt")
  show ?case
  proof (cases ok)
    case False
    with a have "a # cs = [] @ a # cs \<and> CommandSequence_Execute [] rt = (True, rt)
        \<and> Execute a rt = (False, rt')" by simp
    then show ?thesis by blast
  next
    case True
    with a Cons.prems have "fst (CommandSequence_Execute cs rt') = False" by simp
    from Cons.IH [OF this] obtain pre c post rt1 rt2 where
      h: "cs = pre @ c # post" "CommandSequence_Execute pre rt' = (True, rt1)"
         "Execute c rt1 = (False, rt2)" by blast
    from h a True have "a # cs = (a # pre) @ c # post
        \<and> CommandSequence_Execute (a # pre) rt = (True, rt1) \<and> Execute c rt1 = (False, rt2)"
      by simp
    then show ?thesis by blast
  qed
qed

text \<open>
  Claim C1.  \<open>CommandSequence::Execute\<close> runs the commands in order and stops at the first
  command whose \<open>Execute\<close> returns false: when the commands \<open>pre\<close> all succeed and the
  next command \<open>c\<close> fails, the sequence returns false in the state \<open>c\<close> left, whatever
  commands \<open>post\<close> follow (their \<open>Execute\<close> is never called); it returns false only in
  that situation, and when no command fails it has run all of them in order and returns true.
  \<open>CommandSequence::Finish\<close> calls \<open>Finish\<close> on every command, in order, from any runtime
  state (so also after a failed \<open>Execute\<close>), and returns the conjunction of all the results.
\<close>

theorem CommandSequence_Execute_stops_Finish_runs_all:
  "(CommandSequence_Execute pre rt = (True, rt1) \<and> Execute c rt1 = (False, rt2) \<longrightarrow>
      CommandSequence_Execute (pre @ c # post) rt = (False, rt2))
   \<and> (fst (CommandSequence_Execute cs rt) = False \<longrightarrow>
        (\<exists>pre c post rt1 rt2. cs = pre @ c # post
           \<and> CommandSequence_Execute pre rt = (True, rt1) \<and> Execute c rt1 = (False, rt2)))
   \<and> ((\<forall>r \<in> set (fst (call_all Execute cs rt)). r) \<longrightarrow>
        CommandSequence_Execute cs rt = (True, snd (call_all Execute cs rt)))
   \<and> CommandSequence_Finish cs rt' =
        ((\<forall>r \<in> set (fst (call_all Finish cs rt')). r), snd (call_all Finish cs rt'))
   \<and> length (fst (call_all Finish cs rt')) = length cs"
  using Execute_append_first_failure [of pre rt rt1 c rt2 post]
    Execute_False_first_failure [of cs rt] Execute_all_succeed [of cs rt]
  by (simp add: CommandSequence_Finish_def Finish_loop_call_all length_call_all)

theorem CommandSequence_Execute_stops_Finish_runs_all_witness:
  "CommandSequence_Execute
      [logging_command ''a'' True True, logging_command ''b'' False False,
       logging_command ''c'' True True] []
     = (False, [''Execute a'', ''Execute b''])
   \<and> CommandSequence_Finish
      [logging_command ''a'' True True, logging_command ''b'' False False,
       logging_command ''c'' True True] [''Execute a'', ''Execute b'']
     = (False, [''Execute a'', ''Execute b'', ''Finish a'', ''Finish b'', ''Finish c''])
   \<and> CommandSequence_Execute
      [logging_command ''a'' True True, logging_command ''c'' True False] []
     = (True, [''Execute a'', ''Execute c''])"
  using CommandSequence_Execute_stops_Finish_runs_all
    [of "[logging_command ''a'' True True]" "[]" "[''Execute a'']"
        "logging_command ''b'' False False" "[''Execute a'', ''Execute b'']"
        "[logging_command ''c'' True True]"
        "[logging_command ''a'' True True, logging_command ''c'' True False]"
        "[''Execute a'', ''Execute b'']"]
  by (simp add: logging_command_def CommandSequence_Finish_def)

text \<open>
  Claim C7.  \<open>dispatch_execute_error\<close> succeeds exactly when the runtime's
  \<open>DispatchExecute\<close> returns false and its \<open>IsQueueError\<close>, asked afterwards, returns
  true; a successful dispatch, or a failed one without a queue error, makes it fail.
\<close>

theorem DispatchExecuteErrorCommand_Execute_iff:
  "fst (DispatchExecuteErrorCommand_Execute ops dispatchId rt) =
     (\<not> fst (DispatchExecute ops dispatchId rt)
      \<and> fst (IsQueueError ops (snd (DispatchExecute ops dispatchId rt))))"
  by (simp add: DispatchExecuteErrorCommand_Execute_def split: prod.splits)

theorem DispatchExecuteErrorCommand_Execute_iff_witness:
  "DispatchExecuteErrorCommand_Execute toy_runtime ''bad'' (False, [])
     = (True, (True, [''DispatchExecute'', ''IsQueueError'']))
   \<and> DispatchExecuteErrorCommand_Execute toy_runtime ''lost'' (False, [])
     = (False, (False, [''DispatchExecute'', ''IsQueueError'']))
   \<and> DispatchExecuteErrorCommand_Execute toy_runtime ''good'' (True, [])
     = (False, (True, [''DispatchExecute'']))"
  using DispatchExecuteErrorCommand_Execute_iff [of toy_runtime "''bad''" "(False, [])"]
  by (simp add: DispatchExecuteErrorCommand_Execute_def toy_runtime_def)

section \<open>Theorems: memory-fence test\<close>

text \<open>
  Claim C2, as stated, fails in its last clause: the expected result of a load under test
  is not independent of the work-item queried.  Work-items 0 and 1 expect 0 and 1.
\<close>

theorem ExpectedResult_load_work_item_counterexample:
  "ExpectedResult BRIG_OPCODE_LD 0 = Value MV_UINT32 0
   \<and> ExpectedResult BRIG_OPCODE_LD 1 = Value MV_UINT32 1
   \<and> ExpectedResult BRIG_OPCODE_LD 0 \<noteq> ExpectedResult BRIG_OPCODE_LD 1"
  by (simp add: ExpectedResult_def)

text \<open>
  Claim C2.  The expected result of work-item \<open>i\<close> is, for every \<open>i\<close>: the work-item's
  own input value (its index) when the opcode under test is a load; work-group size minus
  one, that is 255, when it is a store; and the sentinel 2 for any other opcode.  For a
  store and for the other opcodes the value is the same whichever work-item is asked;
  for a load it differs between any two different work-items.
\<close>

theorem MemoryFenceTest_ExpectedResult:
  "ExpectedResult BRIG_OPCODE_LD i = Value MV_UINT32 (GetInputValueForWI BRIG_OPCODE_LD i)
   \<and> ExpectedResult BRIG_OPCODE_LD i = Value MV_UINT32 i
   \<and> ExpectedResult BRIG_OPCODE_ST i = Value MV_UINT32 (ucast (workgroupSizeX - 1))
   \<and> ExpectedResult BRIG_OPCODE_ST i = Value MV_UINT32 255
   \<and> ExpectedResult BRIG_OPCODE_MEMFENCE i = Value MV_UINT32 2
   \<and> ExpectedResult (BRIG_OPCODE_OTHER n) i = Value MV_UINT32 2
   \<and> ExpectedResult BRIG_OPCODE_ST i = ExpectedResult BRIG_OPCODE_ST j
   \<and> ExpectedResult BRIG_OPCODE_MEMFENCE i = ExpectedResult BRIG_OPCODE_MEMFENCE j
   \<and> ExpectedResult (BRIG_OPCODE_OTHER n) i = ExpectedResult (BRIG_OPCODE_OTHER n) j
   \<and> (ExpectedResult BRIG_OPCODE_LD i = ExpectedResult BRIG_OPCODE_LD j) = (i = j)"
  by (simp add: ExpectedResult_def GetInputValueForWI_def workgroupSizeX_def)

section \<open>Theorems: rounding test cardinality\<close>

text \<open>
  Claim C6.  For every destination type, \<open>getRoundingTestsNum\<close> is 12 when the type is a
  signed or an unsigned integer type (S8, S16, S32, S64, U8, U16, U32, U64) and 1 for every
  other type.
\<close>

theorem getRoundingTestsNum_cases:
  "getRoundingTestsNum dstType = (if isSignedType dstType \<or> isUnsignedType dstType then 12 else 1)
   \<and> (isSignedType dstType \<or> isUnsignedType dstType) =
       (dstType = BRIG_TYPE_S8 \<or> dstType = BRIG_TYPE_S16 \<or> dstType = BRIG_TYPE_S32
        \<or> dstType = BRIG_TYPE_S64 \<or> dstType = BRIG_TYPE_U8 \<or> dstType = BRIG_TYPE_U16
        \<or> dstType = BRIG_TYPE_U32 \<or> dstType = BRIG_TYPE_U64)"
  by (auto simp: getRoundingTestsNum_def ROUNDING_TESTS_NUM_def isSignedType_def
      isUnsignedType_def)

theorem getRoundingTestsNum_cases_witness:
  "getRoundingTestsNum BRIG_TYPE_S8 = 12 \<and> getRoundingTestsNum BRIG_TYPE_U64 = 12
   \<and> getRoundingTestsNum BRIG_TYPE_F32 = 1 \<and> getRoundingTestsNum BRIG_TYPE_B32 = 1
   \<and> getRoundingTestsNum BRIG_TYPE_S8X4 = 1 \<and> getRoundingTestsNum BRIG_TYPE_NONE = 1"
  using getRoundingTestsNum_cases [of BRIG_TYPE_S8] getRoundingTestsNum_cases [of BRIG_TYPE_U64]
    getRoundingTestsNum_cases [of BRIG_TYPE_F32] getRoundingTestsNum_cases [of BRIG_TYPE_B32]
    getRoundingTestsNum_cases [of BRIG_TYPE_S8X4] getRoundingTestsNum_cases [of BRIG_TYPE_NONE]
  by (simp add: isSignedType_def isUnsignedType_def)

section \<open>Theorems: operand slot buckets\<close>

text \<open>
  Claim C9, as stated, fails: a constant-foldable slot that misses the constants bucket
  (here because it is lock-const) is placed in the locked bucket even though general
  grouping is enabled, where the stated policy puts it in the mutable bucket.
\<close>

theorem registerOperand_spec_policy_counterexample:
  "TestDataProvider_init 64 True True 0 64 0 False False
     = Inr \<lparr> wavesize = 64, maxGridSize = 64, groupTests = True, groupImms = True,
             enableF16 = False, enableFtzF16 = False, rndTestNum = 0 \<rparr>
   \<and> registerOperand
       \<lparr> wavesize = 64, maxGridSize = 64, groupTests = True, groupImms = True,
         enableF16 = False, enableFtzF16 = False, rndTestNum = 0 \<rparr>
       Map.empty 1 1 True True 1 = Some (lockedOperands, 1)
   \<and> spec_bucket_policy
       \<lparr> wavesize = 64, maxGridSize = 64, groupTests = True, groupImms = True,
         enableF16 = False, enableFtzF16 = False, rndTestNum = 0 \<rparr>
       True True = mutableOperands"
  by (simp add: TestDataProvider_init_def registerOperand_def spec_bucket_policy_def
      MAX_RND_TEST_NUM_def)

text \<open>
  Claim C9, amended.  \<open>registerOperand\<close> registers slot \<open>i\<close> and no other slot.  A
  constant-foldable slot goes to the constants bucket when grouping of immediates is
  enabled and the slot is not lock-const, and to the locked bucket otherwise; a slot that
  is not constant-foldable goes to the mutable bucket when general grouping is enabled, and
  to the locked bucket otherwise.  After \<open>init\<close>, grouping of immediates is enabled only
  when general grouping is.
\<close>

theorem registerOperand_bucket:
  "registerOperand st testData i dim isConst lockConst i =
     Some (if isConst then (if groupImms st \<and> \<not> lockConst then constOperands
                            else lockedOperands)
           else (if groupTests st then mutableOperands else lockedOperands), dim)
   \<and> (if j = i then True else registerOperand st testData i dim isConst lockConst j = testData j)
   \<and> (case TestDataProvider_init mgs grpTests grpImms rndNum ws maxGridSz testF16 testFtzF16 of
         Inl e \<Rightarrow> \<not> rndNum \<le> 64
       | Inr st' \<Rightarrow> groupTests st' = grpTests \<and> groupImms st' = (grpTests \<and> grpImms))"
  by (simp add: registerOperand_def TestDataProvider_init_def MAX_RND_TEST_NUM_def)

theorem registerOperand_bucket_witness:
  "registerOperand
       \<lparr> wavesize = 64, maxGridSize = 64, groupTests = True, groupImms = True,
         enableF16 = False, enableFtzF16 = False, rndTestNum = 0 \<rparr>
       Map.empty 1 1 True False 1 = Some (constOperands, 1)
   \<and> registerOperand
       \<lparr> wavesize = 64, maxGridSize = 64, groupTests = True, groupImms = False,
         enableF16 = False, enableFtzF16 = False, rndTestNum = 0 \<rparr>
       Map.empty 1 1 True False 1 = Some (lockedOperands, 1)
   \<and> registerOperand
       \<lparr> wavesize = 64, maxGridSize = 64, groupTests = True, groupImms = False,
         enableF16 = False, enableFtzF16 = False, rndTestNum = 0 \<rparr>
       Map.empty 2 1 False False 2 = Some (mutableOperands, 1)
   \<and> registerOperand
       \<lparr> wavesize = 64, maxGridSize = 64, groupTests = False, groupImms = False,
         enableF16 = False, enableFtzF16 = False, rndTestNum = 0 \<rparr>
       Map.empty 2 1 False False 2 = Some (lockedOperands, 1)"
  using registerOperand_bucket
    [of "\<lparr> wavesize = 64, maxGridSize = 64, groupTests = True, groupImms = True,
         enableF16 = False, enableFtzF16 = False, rndTestNum = 0 \<rparr>"
        Map.empty 1 1 True False 1 64 True True 0 64 0 False False]
  by (simp add: registerOperand_def)

section \<open>Theorems: the emulator's sentinels\<close>

text \<open>
  Claim C3, as stated, fails: the results for "undefined", "unimplemented" and "no
  destination / no memory effect" are one and the same value, so no caller can tell them
  apart.
\<close>

theorem sentinels_distinguishable_counterexample:
  "\<not> (undefValue \<noteq> unimplemented \<and> undefValue \<noteq> emptyDstValue
      \<and> undefValue \<noteq> emptyMemValue \<and> unimplemented \<noteq> emptyDstValue
      \<and> unimplemented \<noteq> emptyMemValue)"
  by (simp add: undefValue_def unimplemented_def)

text \<open>
  Claim C3, amended.  The results "undefined", "unimplemented", "no destination" and "no
  memory effect" are all the empty \<open>Val\<close>: each of them is empty, which sets them apart
  from every definite (non-empty) value, and any observation \<open>f\<close> a caller makes gives the
  same answer on all four.
\<close>

theorem sentinels_all_empty:
  "undefValue = Val_none \<and> unimplemented = Val_none
   \<and> emptyDstValue = Val_none \<and> emptyMemValue = Val_none
   \<and> Val_empty undefValue \<and> Val_empty unimplemented
   \<and> Val_empty emptyDstValue \<and> Val_empty emptyMemValue
   \<and> f undefValue = f unimplemented \<and> f unimplemented = f emptyDstValue
   \<and> f emptyDstValue = f emptyMemValue"
  by (simp add: undefValue_def unimplemented_def emptyDstValue_def emptyMemValue_def
      Val_none_def Val_empty_def isVector_def getType_def)

section \<open>Lemmas: the floating-point model\<close>

text \<open>
  Rules that evaluate \<open>bit_length\<close> on numerals, the definitions to unfold when a
  floating-point operation is evaluated on given bit patterns, and facts about the
  encoding \<open>fp_round\<close> produces: its fields, that it is never a NaN, and that it is a
  zero exactly for the magnitude 0.
\<close>

lemma bit_length_0: "bit_length 0 = 0" by (simp add: bit_length.simps)
lemma bit_length_1: "bit_length 1 = 1" by (simp add: bit_length.simps)
lemma bit_length_Suc_0: "bit_length (Suc 0) = 1" by (simp add: bit_length.simps)
lemma bit_length_Bit0: "bit_length (numeral (Num.Bit0 n)) = Suc (bit_length (numeral n))"
  by (subst bit_length.simps) simp
lemma bit_length_Bit1: "bit_length (numeral (Num.Bit1 n)) = Suc (bit_length (numeral n))"
  by (subst bit_length.simps) simp
lemmas bit_length_numeral =
  bit_length_0 bit_length_1 bit_length_Suc_0 bit_length_Bit0 bit_length_Bit1

lemmas fp_defs = mant_bits_def exp_bits_def getExponent_def getMantissa_def getSign_def
  EXPONENT_MAX_def props_isNan_def props_isInf_def props_isZero_def props_isNegative_def
  props_isPositive_def props_isPositiveZero_def props_isNegativeZero_def
  props_isPositiveInf_def props_isNegativeInf_def fp_unit_def fp_magnitude_def fp_value_def
  fp_sign_bit_def fp_round_mag_def fp_round_def fp_nan_def fp_zero_def fp_add_def fp_of_int_def fp_neg_def
  fp_sub_def fp_half_def fp_le_def fp_lt_def fp_eq_def fp_trunc_def fp_modf_def

lemmas Val_defs = Val_of_def Val_f_def Val_get_def fp_type_def sizeof_def isFloat_def isF16_def
  isF32_def isF64_def GET_FLOAT_PROP_def isNan_def isZero_def isNegative_def isPositive_def
  isPositiveInf_def isNegativeInf_def isPositiveZero_def isNegativeZero_def Val_T_def
  getType_def num_def isVector_def isFloatType_def getAsB64_def Val_empty_def



lemma fp_fields_bound: "mant_bits T + exp_bits T < 64" "0 < exp_bits T" "0 < mant_bits T"
  by (cases T; simp add: mant_bits_def exp_bits_def)+

lemma fp_round_mag_le: "fp_round_mag T m \<le> EXPONENT_MAX T * 2 ^ mant_bits T"
  by (simp add: fp_round_mag_def Let_def)

lemma EXPONENT_MAX_less: "EXPONENT_MAX T * 2 ^ mant_bits T < 2 ^ (mant_bits T + exp_bits T)"
proof -
  have "EXPONENT_MAX T < 2 ^ exp_bits T" by (simp add: EXPONENT_MAX_def)
  then have "EXPONENT_MAX T * 2 ^ mant_bits T < 2 ^ exp_bits T * 2 ^ mant_bits T"
    by simp
  then show ?thesis by (simp add: power_add mult.commute)
qed

lemma fp_round_mag_less: "fp_round_mag T m < 2 ^ (mant_bits T + exp_bits T)"
  using fp_round_mag_le [of T m] EXPONENT_MAX_less [of T] by simp

lemma fp_sign_bit_le: "fp_sign_bit T neg \<le> 2 ^ (mant_bits T + exp_bits T)"
  by (simp add: fp_sign_bit_def)

lemma unat_fp_round: "unat (fp_round T neg m) = fp_round_mag T m + fp_sign_bit T neg"
proof -
  have "(2::nat) ^ (mant_bits T + exp_bits T) * 2 \<le> 2 ^ 64"
    using fp_fields_bound(1) [of T]
    by (metis Suc_leI power_Suc2 power_increasing one_le_numeral)
  then have "fp_round_mag T m + fp_sign_bit T neg < 2 ^ 64"
    using fp_round_mag_less [of T m] fp_sign_bit_le [of T neg] by simp
  then show ?thesis
    unfolding fp_round_def by (subst unat_of_nat) simp
qed

lemma getSign_fp_round: "getSign T (fp_round T neg m) = (if neg then 1 else 0)"
proof (cases neg)
  case False
  then show ?thesis
    using fp_round_mag_less [of T m] by (simp add: getSign_def unat_fp_round fp_sign_bit_def)
next
  case True
  have "(fp_round_mag T m + 2 ^ (mant_bits T + exp_bits T)) div 2 ^ (mant_bits T + exp_bits T)
        = fp_round_mag T m div 2 ^ (mant_bits T + exp_bits T) + 1"
    by (rule div_add_self2) simp
  with True fp_round_mag_less [of T m] show ?thesis
    by (simp add: getSign_def unat_fp_round fp_sign_bit_def)
qed

lemma getMantissa_fp_round: "getMantissa T (fp_round T neg m) = fp_round_mag T m mod 2 ^ mant_bits T"
  by (simp add: getMantissa_def unat_fp_round fp_sign_bit_def power_add mod_mult_self2)

lemma getExponent_fp_round: "getExponent T (fp_round T neg m) = fp_round_mag T m div 2 ^ mant_bits T"
proof -
  have l: "fp_round_mag T m div 2 ^ mant_bits T < 2 ^ exp_bits T"
    using fp_round_mag_less [of T m] by (simp add: less_mult_imp_div_less power_add mult.commute)
  show ?thesis
  proof (cases neg)
    case False
    then show ?thesis using l by (simp add: getExponent_def unat_fp_round fp_sign_bit_def)
  next
    case True
    have "(fp_round_mag T m + 2 ^ (mant_bits T + exp_bits T)) div 2 ^ mant_bits T
          = fp_round_mag T m div 2 ^ mant_bits T + 2 ^ exp_bits T"
      by (simp add: power_add)
    with True l show ?thesis by (simp add: getExponent_def unat_fp_round fp_sign_bit_def)
  qed
qed

lemma not_isNan_fp_round: "\<not> props_isNan T (fp_round T neg m)"
proof
  assume n: "props_isNan T (fp_round T neg m)"
  then have e: "fp_round_mag T m div 2 ^ mant_bits T = EXPONENT_MAX T"
    and f: "fp_round_mag T m mod 2 ^ mant_bits T \<noteq> 0"
    by (simp_all add: props_isNan_def getExponent_fp_round getMantissa_fp_round)
  have "fp_round_mag T m = EXPONENT_MAX T * 2 ^ mant_bits T + fp_round_mag T m mod 2 ^ mant_bits T"
    using e by (metis div_mult_mod_eq)
  with f fp_round_mag_le [of T m] show False by simp
qed

lemma bit_length_pos: "0 < n \<Longrightarrow> 0 < bit_length n"
  by (subst bit_length.simps) simp

lemma bit_length_lower: "0 < n \<Longrightarrow> 2 ^ (bit_length n - 1) \<le> n"
proof (induction n rule: bit_length.induct)
  case (1 n)
  show ?case
  proof (cases "n div 2 = 0")
    case True
    with "1.prems" have "n = 1" by (cases n; simp) 
    then show ?thesis by (simp add: bit_length.simps)
  next
    case False
    with "1.prems" "1.IH" have ih: "2 ^ (bit_length (n div 2) - 1) \<le> n div 2" by simp
    have b: "bit_length n = Suc (bit_length (n div 2))"
      using "1.prems" by (subst bit_length.simps) simp
    from False have "0 < bit_length (n div 2)" by (simp add: bit_length_pos)
    then have "(2::nat) ^ (bit_length n - 1) = 2 * 2 ^ (bit_length (n div 2) - 1)"
      using b by (cases "bit_length (n div 2)") simp_all
    with ih show ?thesis by simp
  qed
qed


lemma fp_round_mag_0 [simp]: "fp_round_mag T 0 = 0"
  by (simp add: fp_round_mag_def bit_length.simps)

lemma fp_round_mag_pos: "0 < m \<Longrightarrow> 0 < fp_round_mag T m"
proof -
  assume m: "0 < m"
  define k where "k = bit_length m - (mant_bits T + 1)"
  have q: "0 < m div 2 ^ k"
  proof (cases "k = 0")
    case True
    with m show ?thesis by simp
  next
    case False
    then have "k \<le> bit_length m - 1" by (simp add: k_def)
    then have "(2::nat) ^ k \<le> 2 ^ (bit_length m - 1)" by (simp add: power_increasing)
    from this bit_length_lower [OF m] have "2 ^ k \<le> m" by (rule order_trans)
    then show ?thesis by (simp add: div_greater_zero_iff)
  qed
  have e: "0 < EXPONENT_MAX T * 2 ^ mant_bits T"
    by (cases T) (simp_all add: EXPONENT_MAX_def exp_bits_def)
  show ?thesis
    using q e unfolding fp_round_mag_def Let_def k_def [symmetric] by (auto simp: min_def)
qed

lemma fp_round_mag_eq_0: "fp_round_mag T m = 0 \<longleftrightarrow> m = 0"
  using fp_round_mag_pos [of m T] by (cases "m = 0") auto

lemma isZero_fp_round: "props_isZero T (fp_round T neg m) \<longleftrightarrow> m = 0"
proof -
  have "props_isZero T (fp_round T neg m) \<longleftrightarrow> fp_round_mag T m = 0"
    unfolding props_isZero_def getExponent_fp_round getMantissa_fp_round
    by (metis div_mult_mod_eq add_0 mult_0 div_0 mod_0)
  then show ?thesis by (simp add: fp_round_mag_eq_0)
qed

lemma fp_magnitude_eq_0: "fp_magnitude T x = 0 \<longleftrightarrow> props_isZero T x"
  by (auto simp: fp_magnitude_def props_isZero_def)

lemma fp_value_fp_round:
  "fp_value T (fp_round T neg m) =
     (if neg then - int (fp_magnitude T (fp_round T neg m))
      else int (fp_magnitude T (fp_round T neg m)))"
  by (simp add: fp_value_def props_isNegative_def getSign_fp_round)

lemma word_0_props:
  "\<not> props_isNan T 0" "fp_value T 0 = 0" "props_isZero T 0"
  by (simp_all add: props_isNan_def getExponent_def getMantissa_def EXPONENT_MAX_def fp_value_def
      fp_magnitude_def props_isZero_def)

lemma fp_lt_0_fp_round: "fp_lt T 0 (fp_round T neg m) \<longleftrightarrow> \<not> neg \<and> 0 < m"
  using isZero_fp_round [of T neg m] fp_magnitude_eq_0 [of T "fp_round T neg m"]
  by (auto simp: fp_lt_def word_0_props not_isNan_fp_round fp_value_fp_round)

lemma fp_unit_pos: "0 < fp_unit T"
  by (simp add: fp_unit_def)

lemma fp_of_int_0: "fp_of_int T 0 = 0"
  by (simp add: fp_of_int_def fp_zero_def fp_sign_bit_def)

lemma fp_lt_0_fp_of_int: "fp_lt T 0 (fp_of_int T i) \<longleftrightarrow> 0 < i"
proof (cases "i = 0")
  case True
  then show ?thesis by (simp add: fp_of_int_0 fp_lt_def word_0_props)
next
  case False
  then have "0 < nat \<bar>i\<bar> * fp_unit T" using fp_unit_pos [of T] by simp
  with False show ?thesis
    by (simp add: fp_of_int_def fp_lt_0_fp_round) arith
qed

lemma Val_get_Val_f [simp]: "Val_get (Val_f T x) = x"
  by (simp add: Val_get_def Val_f_def num_def)

lemma getType_Val_f [simp]: "getType (Val_f T x) = fp_type T"
  by (simp add: getType_def Val_f_def)

text \<open>The boundaries of S8 as f32 values, and the f32 values 0, 1 and -1.\<close>

lemma getTypeBoundary_f32_S8:
  "getTypeBoundary f32_t BRIG_TYPE_S8 True = Inr 0xC3000000"
  "getTypeBoundary f32_t BRIG_TYPE_S8 False = Inr 0x42FE0000"
  by (simp_all add: getTypeBoundary_def getTypeBoundary_f32_def sizeof_def fp_defs
      bit_length_numeral)

lemma fp_of_int_f32:
  "fp_of_int f32_t 0 = 0" "fp_of_int f32_t 1 = 0x3F800000" "fp_of_int f32_t (- 1) = 0xBF800000"
  by (simp_all add: fp_defs bit_length_numeral)



lemma pow2_le_D: "(2::nat) ^ a \<le> 2 ^ b \<Longrightarrow> a \<le> b"
  by (rule power_le_imp_le_exp [of 2]) simp_all
































section \<open>Theorems: equality of values\<close>

lemma isNan_isFloat: "isNan a \<Longrightarrow> isFloat a"
  by (simp add: isNan_def GET_FLOAT_PROP_def)

lemma isFloat_not_empty: "isFloat a \<Longrightarrow> \<not> Val_empty a \<and> \<not> isVector a"
  by (auto simp: isFloat_def Val_empty_def isFloatType_def)

lemma Val_eq_NaN: "isNan a \<Longrightarrow> isNan b \<Longrightarrow> getType a = getType b \<Longrightarrow> Val_eq a b = Inr True"
  using isFloat_not_empty [OF isNan_isFloat, of a] isFloat_not_empty [OF isNan_isFloat, of b]
  by (simp add: Val_eq_def Val_eq_scalar_def)

lemma zero_bits:
  "fp_zero T False = 0"
  "fp_zero T True = (case T of f16_t \<Rightarrow> 0x8000 | f32_t \<Rightarrow> 0x80000000 | f64_t \<Rightarrow> 0x8000000000000000)"
  by (cases T; simp add: fp_defs)+

lemma Val_eq_zeros: "Val_eq (Val_f T (fp_zero T False)) (Val_f T (fp_zero T True)) = Inr False"
  by (cases T) (simp_all add: zero_bits Val_eq_def Val_eq_scalar_def Val_defs fp_defs)

lemma isZero_zeros:
  "isZero (Val_f T (fp_zero T False))" "isZero (Val_f T (fp_zero T True))"
  "isPositiveZero (Val_f T (fp_zero T False))" "isNegativeZero (Val_f T (fp_zero T True))"
  by (cases T; simp add: zero_bits Val_defs fp_defs)+

lemma get_zeros:
  "getPositiveZero (Val_f T x) = Inr (Val_f T (fp_zero T False))"
  "getNegativeZero (Val_f T x) = Inr (Val_f T (fp_zero T True))"
  by (cases T; simp add: getPositiveZero_def getNegativeZero_def Val_defs)+

text \<open>
  Claim C8.  Two values of the same floating type that are both NaNs are equal for
  \<open>Val::eq\<close>, whatever their payloads and signs (a NaN is a scalar and is not empty, so
  the assertions hold).  The positive and the negative zero of a floating type (what
  \<open>getPositiveZero\<close> and \<open>getNegativeZero\<close> return) are not equal for \<open>Val::eq\<close>,
  although \<open>isZero\<close> holds of both.
\<close>

theorem Val_eq_NaN_equal_zeros_differ:
  "(isNan a \<and> isNan b \<and> getType a = getType b \<longrightarrow> Val_eq a b = Inr True)
   \<and> getPositiveZero (Val_f T x) = Inr (Val_f T (fp_zero T False))
   \<and> getNegativeZero (Val_f T x) = Inr (Val_f T (fp_zero T True))
   \<and> Val_eq (Val_f T (fp_zero T False)) (Val_f T (fp_zero T True)) = Inr False
   \<and> isZero (Val_f T (fp_zero T False)) \<and> isZero (Val_f T (fp_zero T True))
   \<and> isPositiveZero (Val_f T (fp_zero T False)) \<and> isNegativeZero (Val_f T (fp_zero T True))"
  using Val_eq_NaN [of a b]
  by (simp add: Val_eq_zeros isZero_zeros get_zeros)

lemma nan_examples:
  "isNan (Scalar BRIG_TYPE_F32 (0x7FC00001, 0))" "isNan (Scalar BRIG_TYPE_F32 (0xFFA00000, 0))"
  "isNan (Scalar BRIG_TYPE_F64 (0x7FF8000000000000, 0))"
  "isNan (Scalar BRIG_TYPE_F64 (0xFFF0000000000001, 0))"
  "isNan (Scalar BRIG_TYPE_F16 (0x7E00, 0))" "isNan (Scalar BRIG_TYPE_F16 (0xFC01, 0))"
  by (simp_all add: Val_defs fp_defs)

theorem Val_eq_NaN_equal_zeros_differ_witness:
  "Val_eq (Scalar BRIG_TYPE_F32 (0x7FC00001, 0)) (Scalar BRIG_TYPE_F32 (0xFFA00000, 0)) = Inr True
   \<and> Val_eq (Scalar BRIG_TYPE_F32 (0, 0)) (Scalar BRIG_TYPE_F32 (0x80000000, 0)) = Inr False
   \<and> isZero (Scalar BRIG_TYPE_F32 (0, 0)) \<and> isZero (Scalar BRIG_TYPE_F32 (0x80000000, 0))"
  using Val_eq_NaN_equal_zeros_differ
    [of "Scalar BRIG_TYPE_F32 (0x7FC00001, 0)" "Scalar BRIG_TYPE_F32 (0xFFA00000, 0)" f32_t 0]
  by (simp add: nan_examples zero_bits Val_f_def fp_type_def getType_def)

section \<open>Theorems: float-to-integer conversion\<close>



lemma fp_half_f32: "fp_half f32_t = 0x3F000000"
  by (simp add: fp_defs bit_length_numeral)










































































section \<open>Theorems: rounding test data\<close>

lemma ulp_T_eq: "ulp_T h T x delta = Inr (props_ulp h T x delta)"
  by (cases T) (simp_all add: ulp_T_def Val_ulp_def Val_defs)

lemma rounding_tests_table_eq: "rounding_tests_table h T lo hi = Inr (twelve_points h T lo hi)"
  by (simp add: rounding_tests_table_def twelve_points_def ulp_T_eq)

lemma boundary_constants_sign:
  "\<not> fp_lt f32_t 0 MIN_S32_F32H" "\<not> fp_lt f32_t 0 MIN_S64_F32H"
  "fp_lt f32_t 0 MAX_S32_F32H" "fp_lt f32_t 0 MAX_S64_F32H"
  "fp_lt f32_t 0 MAX_U32_F32H" "fp_lt f32_t 0 MAX_U64_F32H"
  "\<not> fp_lt f64_t 0 MIN_S64_F64H" "fp_lt f64_t 0 MAX_S64_F64H" "fp_lt f64_t 0 MAX_U64_F64H"
  by (simp_all add: MAX_U32_F32H_def MAX_U64_F32H_def MAX_S32_F32H_def MAX_S64_F32H_def
      MIN_S32_F32H_def MIN_S64_F32H_def MAX_U64_F64H_def MAX_S64_F64H_def MIN_S64_F64H_def
      fp_defs)

lemma boundaries_f32:
  "isIntType t \<Longrightarrow>
   \<exists>lo hi. getTypeBoundary f32_t t True = Inr lo \<and> getTypeBoundary f32_t t False = Inr hi
     \<and> \<not> fp_lt f32_t 0 lo \<and> fp_lt f32_t 0 hi"
  unfolding isIntType_def isSignedType_def isUnsignedType_def
  by (elim disjE; simp add: getTypeBoundary_def getTypeBoundary_f32_def sizeof_def
      fp_lt_0_fp_of_int boundary_constants_sign)

lemma boundaries_f64:
  "isIntType t \<Longrightarrow>
   \<exists>lo hi. getTypeBoundary f64_t t True = Inr lo \<and> getTypeBoundary f64_t t False = Inr hi
     \<and> \<not> fp_lt f64_t 0 lo \<and> fp_lt f64_t 0 hi"
  unfolding isIntType_def isSignedType_def isUnsignedType_def
  by (elim disjE; simp add: getTypeBoundary_def getTypeBoundary_f64_def sizeof_def
      fp_lt_0_fp_of_int boundary_constants_sign)

lemma boundaries:
  "isIntType t \<Longrightarrow> T \<noteq> f16_t \<Longrightarrow>
   \<exists>lo hi. getTypeBoundary T t True = Inr lo \<and> getTypeBoundary T t False = Inr hi
     \<and> \<not> fp_lt T (fp_of_int T 0) lo \<and> fp_lt T (fp_of_int T 0) hi"
  using boundaries_f32 [of t] boundaries_f64 [of t] by (cases T) (simp_all add: fp_of_int_0)

lemma makeRoundingTestsData_int:
  assumes "isIntType t" "T \<noteq> f16_t"
  shows "\<exists>lo hi. getTypeBoundary T t True = Inr lo \<and> getTypeBoundary T t False = Inr hi
     \<and> makeRoundingTestsData T h t aluMod =
        (case rounding_kind (getRounding aluMod) of
           NEARI \<Rightarrow> Inr (twelve_points h T (fp_add T lo (fp_half T)) (fp_add T hi (fp_half T)))
         | ZEROI \<Rightarrow> Inr (twelve_points h T lo (fp_add T hi (fp_of_int T 1)))
         | DOWNI \<Rightarrow> Inr (twelve_points h T (fp_add T lo (fp_of_int T 1))
                           (fp_add T hi (fp_of_int T 1)))
         | UPI \<Rightarrow> Inr (twelve_points h T lo hi)
         | OTHER \<Rightarrow> Inl AssertionFailed)"
proof -
  from boundaries [OF assms] obtain lo hi where
    b: "getTypeBoundary T t True = Inr lo" "getTypeBoundary T t False = Inr hi"
       "\<not> fp_lt T (fp_of_int T 0) lo" "fp_lt T (fp_of_int T 0) hi" by blast
  from assms(1) have n: "getRoundingTestsNum t \<noteq> 1"
    by (simp add: getRoundingTestsNum_def isIntType_def ROUNDING_TESTS_NUM_def)
  have "makeRoundingTestsData T h t aluMod =
        (case rounding_kind (getRounding aluMod) of
           NEARI \<Rightarrow> Inr (twelve_points h T (fp_add T lo (fp_half T)) (fp_add T hi (fp_half T)))
         | ZEROI \<Rightarrow> Inr (twelve_points h T lo (fp_add T hi (fp_of_int T 1)))
         | DOWNI \<Rightarrow> Inr (twelve_points h T (fp_add T lo (fp_of_int T 1))
                           (fp_add T hi (fp_of_int T 1)))
         | UPI \<Rightarrow> Inr (twelve_points h T lo hi)
         | OTHER \<Rightarrow> Inl AssertionFailed)"
    using b n by (simp add: makeRoundingTestsData_def rounding_tests_table_eq
        split: RoundingKind.splits)
  with b show ?thesis by blast
qed

lemma rounding_kind_cases:
  "rounding_kind ROUNDING_NEARI = NEARI" "rounding_kind ROUNDING_NEARI_SAT = NEARI"
  "rounding_kind ROUNDING_SNEARI = NEARI" "rounding_kind ROUNDING_SNEARI_SAT = NEARI"
  "rounding_kind ROUNDING_ZEROI = ZEROI" "rounding_kind ROUNDING_ZEROI_SAT = ZEROI"
  "rounding_kind ROUNDING_SZEROI = ZEROI" "rounding_kind ROUNDING_SZEROI_SAT = ZEROI"
  "rounding_kind ROUNDING_DOWNI = DOWNI" "rounding_kind ROUNDING_DOWNI_SAT = DOWNI"
  "rounding_kind ROUNDING_SDOWNI = DOWNI" "rounding_kind ROUNDING_SDOWNI_SAT = DOWNI"
  "rounding_kind ROUNDING_UPI = UPI" "rounding_kind ROUNDING_UPI_SAT = UPI"
  "rounding_kind ROUNDING_SUPI = UPI" "rounding_kind ROUNDING_SUPI_SAT = UPI"
  by (simp_all add: rounding_kind_def)

text \<open>
  Claim C5, amended.  For every integer destination type and for \<open>T\<close> either f32 or
  f64, the twelve points are \<open>twelve_points\<close> of two boundaries, which are the type's
  boundaries \<open>lo\<close> and \<open>hi\<close> shifted in the arithmetic of \<open>T\<close>: the nearest modes
  add 0.5 to both ends; the toward-zero modes add 1 to the upper (positive) end only; the
  floor modes add 1 to both ends; the ceiling modes add nothing to either end.
\<close>

theorem makeRoundingTestsData_boundaries:
  "isIntType dstType \<and> T \<noteq> f16_t \<longrightarrow>
   (\<exists>lo hi. getTypeBoundary T dstType True = Inr lo \<and> getTypeBoundary T dstType False = Inr hi
     \<and> makeRoundingTestsData T h dstType aluMod =
        (case rounding_kind (getRounding aluMod) of
           NEARI \<Rightarrow> Inr (twelve_points h T (fp_add T lo (fp_half T)) (fp_add T hi (fp_half T)))
         | ZEROI \<Rightarrow> Inr (twelve_points h T lo (fp_add T hi (fp_of_int T 1)))
         | DOWNI \<Rightarrow> Inr (twelve_points h T (fp_add T lo (fp_of_int T 1))
                           (fp_add T hi (fp_of_int T 1)))
         | UPI \<Rightarrow> Inr (twelve_points h T lo hi)
         | OTHER \<Rightarrow> Inl AssertionFailed))"
  using makeRoundingTestsData_int [of dstType T h aluMod] by blast

lemma S8_f32_shifts:
  "fp_add f32_t 0xC3000000 0x3F800000 = 0xC2FE0000"
  "fp_add f32_t 0x42FE0000 0x3F800000 = 0x43000000"
  "fp_sub f32_t 0xC3000000 0x3F800000 = 0xC3010000"
  "fp_sub f32_t 0x42FE0000 0x3F800000 = 0x42FC0000"
  "fp_sub f32_t 0xC2FE0000 0x3F800000 = 0xC3000000"
  "fp_add f32_t 0xC2FE0000 0x3F800000 = 0xC2FC0000"
  "fp_sub f32_t 0x43000000 0x3F800000 = 0x42FE0000"
  "fp_add f32_t 0x43000000 0x3F800000 = 0x43010000"
  by (simp_all add: fp_defs bit_length_numeral)

lemma ieee_ulp_S8:
  "ieee_ulp f32_t 0xC3010000 1 = 0xC300FFFF" "ieee_ulp f32_t 0xC3000000 (- 1) = 0xC3000001"
  "ieee_ulp f32_t 0xC3000000 1 = 0xC2FFFFFF" "ieee_ulp f32_t 0x42FE0000 (- 1) = 0x42FDFFFF"
  "ieee_ulp f32_t 0x42FE0000 1 = 0x42FE0001" "ieee_ulp f32_t 0x43000000 (- 1) = 0x42FFFFFF"
  "ieee_ulp f32_t 0xC2FE0000 (- 1) = 0xC2FE0001" "ieee_ulp f32_t 0xC2FE0000 1 = 0xC2FDFFFF"
  "ieee_ulp f32_t 0x43000000 1 = 0x43000001" "ieee_ulp f32_t 0x43010000 (- 1) = 0x4300FFFF"
  by (simp_all add: ieee_ulp_def fp_defs)

lemma makeRoundingTestsData_S8_UPI:
  "makeRoundingTestsData f32_t ieee_helpers BRIG_TYPE_S8
     \<lparr> getRounding = ROUNDING_UPI, isSat = False, isSignaling = False \<rparr>
   = Inr [0xC3010000, 0xC300FFFF, 0xC3000001, 0xC3000000, 0xC2FFFFFF, 0xC2FE0000,
          0x42FC0000, 0x42FDFFFF, 0x42FE0000, 0x42FE0001, 0x42FFFFFF, 0x43000000]"
  by (simp add: makeRoundingTestsData_def getRoundingTestsNum_def isSignedType_def
      ROUNDING_TESTS_NUM_def getTypeBoundary_f32_S8 rounding_kind_def rounding_tests_table_eq
      twelve_points_def fp_of_int_f32 S8_f32_shifts ieee_helpers_def ieee_ulp_S8)

lemma makeRoundingTestsData_S8_DOWNI:
  "makeRoundingTestsData f32_t ieee_helpers BRIG_TYPE_S8
     \<lparr> getRounding = ROUNDING_DOWNI, isSat = False, isSignaling = False \<rparr>
   = Inr [0xC3000000, 0xC2FFFFFF, 0xC2FE0001, 0xC2FE0000, 0xC2FDFFFF, 0xC2FC0000,
          0x42FE0000, 0x42FFFFFF, 0x43000000, 0x43000001, 0x4300FFFF, 0x43010000]"
  by (simp add: makeRoundingTestsData_def getRoundingTestsNum_def isSignedType_def
      ROUNDING_TESTS_NUM_def getTypeBoundary_f32_S8 rounding_kind_def rounding_tests_table_eq
      twelve_points_def fp_of_int_f32 S8_f32_shifts ieee_helpers_def ieee_ulp_S8)

lemma S8_f32_half_shifts:
  "fp_add f32_t 0xC3000000 0x3F000000 = 0xC2FF0000"
  "fp_add f32_t 0x42FE0000 0x3F000000 = 0x42FF0000"
  by (simp_all add: fp_defs bit_length_numeral)

theorem makeRoundingTestsData_boundaries_witness:
  "makeRoundingTestsData f32_t ieee_helpers BRIG_TYPE_S8
       \<lparr> getRounding = ROUNDING_NEARI, isSat = False, isSignaling = False \<rparr>
     = Inr (twelve_points ieee_helpers f32_t 0xC2FF0000 0x42FF0000)
   \<and> makeRoundingTestsData f32_t ieee_helpers BRIG_TYPE_S8
       \<lparr> getRounding = ROUNDING_ZEROI, isSat = False, isSignaling = False \<rparr>
     = Inr (twelve_points ieee_helpers f32_t 0xC3000000 0x43000000)
   \<and> makeRoundingTestsData f32_t ieee_helpers BRIG_TYPE_S8
       \<lparr> getRounding = ROUNDING_DOWNI, isSat = False, isSignaling = False \<rparr>
     = Inr (twelve_points ieee_helpers f32_t 0xC2FE0000 0x43000000)
   \<and> makeRoundingTestsData f32_t ieee_helpers BRIG_TYPE_S8
       \<lparr> getRounding = ROUNDING_UPI, isSat = False, isSignaling = False \<rparr>
     = Inr (twelve_points ieee_helpers f32_t 0xC3000000 0x42FE0000)"
  using
    makeRoundingTestsData_boundaries [of BRIG_TYPE_S8 f32_t ieee_helpers
      "\<lparr> getRounding = ROUNDING_NEARI, isSat = False, isSignaling = False \<rparr>"]
    makeRoundingTestsData_boundaries [of BRIG_TYPE_S8 f32_t ieee_helpers
      "\<lparr> getRounding = ROUNDING_ZEROI, isSat = False, isSignaling = False \<rparr>"]
    makeRoundingTestsData_boundaries [of BRIG_TYPE_S8 f32_t ieee_helpers
      "\<lparr> getRounding = ROUNDING_DOWNI, isSat = False, isSignaling = False \<rparr>"]
    makeRoundingTestsData_boundaries [of BRIG_TYPE_S8 f32_t ieee_helpers
      "\<lparr> getRounding = ROUNDING_UPI, isSat = False, isSignaling = False \<rparr>"]
  by (simp add: isIntType_def isSignedType_def getTypeBoundary_f32_S8 rounding_kind_cases
      fp_of_int_f32 fp_half_f32 S8_f32_shifts S8_f32_half_shifts)

text \<open>
  Claim C5, as stated, fails for the floor and the ceiling modes: for S8 and f32 the
  boundaries are -128.0 and 127.0; the ceiling modes build the table from exactly these
  (entries 3 and 8 are -128.0 and 127.0: 1 is added to neither end), and the floor modes
  build it from -127.0 and 128.0 (1 is added to both ends).
\<close>

theorem makeRoundingTestsData_floor_ceil_counterexample:
  "getTypeBoundary f32_t BRIG_TYPE_S8 True = Inr 0xC3000000
   \<and> getTypeBoundary f32_t BRIG_TYPE_S8 False = Inr 0x42FE0000
   \<and> makeRoundingTestsData f32_t ieee_helpers BRIG_TYPE_S8
       \<lparr> getRounding = ROUNDING_UPI, isSat = False, isSignaling = False \<rparr>
     = Inr [0xC3010000, 0xC300FFFF, 0xC3000001, 0xC3000000, 0xC2FFFFFF, 0xC2FE0000,
            0x42FC0000, 0x42FDFFFF, 0x42FE0000, 0x42FE0001, 0x42FFFFFF, 0x43000000]
   \<and> \<not> adds_one_to_one_end f32_t 0xC3000000 0x42FE0000
        [0xC3010000, 0xC300FFFF, 0xC3000001, 0xC3000000, 0xC2FFFFFF, 0xC2FE0000,
         0x42FC0000, 0x42FDFFFF, 0x42FE0000, 0x42FE0001, 0x42FFFFFF, 0x43000000]
   \<and> makeRoundingTestsData f32_t ieee_helpers BRIG_TYPE_S8
       \<lparr> getRounding = ROUNDING_DOWNI, isSat = False, isSignaling = False \<rparr>
     = Inr [0xC3000000, 0xC2FFFFFF, 0xC2FE0001, 0xC2FE0000, 0xC2FDFFFF, 0xC2FC0000,
            0x42FE0000, 0x42FFFFFF, 0x43000000, 0x43000001, 0x4300FFFF, 0x43010000]
   \<and> \<not> adds_one_to_one_end f32_t 0xC3000000 0x42FE0000
        [0xC3000000, 0xC2FFFFFF, 0xC2FE0001, 0xC2FE0000, 0xC2FDFFFF, 0xC2FC0000,
         0x42FE0000, 0x42FFFFFF, 0x43000000, 0x43000001, 0x4300FFFF, 0x43010000]"
  by (simp add: getTypeBoundary_f32_S8 makeRoundingTestsData_S8_UPI makeRoundingTestsData_S8_DOWNI
      adds_one_to_one_end_def fp_of_int_f32 S8_f32_shifts)

section \<open>Theorems: catalogs of test values\<close>


lemma isStdValue_iff:
  "isStdValue c v \<longleftrightarrow> (\<exists>j < size' c. OperandTestDataImpl_eq v (values' c ! j))"
  by (auto simp: isStdValue_def list_ex_iff)

lemma isStdValue_cong:
  "size' c1 = size' c2 \<Longrightarrow> (\<And>j. j < size' c1 \<Longrightarrow> values' c1 ! j = values' c2 ! j) \<Longrightarrow>
   isStdValue c1 v = isStdValue c2 v"
  by (auto simp: isStdValue_iff)

lemma addRndValue_loop_not_std:
  "addRndValue_loop rnd c n v g = (v', cnt, g') \<Longrightarrow> 0 < cnt \<Longrightarrow> \<not> isStdValue c v'"
proof (induction n arbitrary: v g)
  case 0
  then show ?case by simp
next
  case (Suc n)
  show ?case
  proof (cases "isStdValue c v")
    case True
    obtain v1 g1 where r: "rnd g v = (v1, g1)" by (cases "rnd g v")
    with True Suc.prems(1) have "addRndValue_loop rnd c n v1 g1 = (v', cnt, g')" by simp
    from Suc.IH [OF this Suc.prems(2)] show ?thesis .
  next
    case False
    with Suc.prems(1) show ?thesis by simp
  qed
qed

lemma addRndValue_cases:
  assumes "addRndValue rnd c pos g = (pos', c', g')"
  shows "(pos' = pos \<and> c' = c)
     \<or> (\<exists>v. pos' = Suc pos \<and> c' = c\<lparr>values' := (values' c)[size' c + pos := v]\<rparr>
            \<and> \<not> isStdValue c v)"
proof -
  obtain v1 g1 where r: "rnd g (values' c ! 0) = (v1, g1)" by (cases "rnd g (values' c ! 0)")
  obtain v cnt g2 where l: "addRndValue_loop rnd c MAX_RND_TEST_TRY v1 g1 = (v, cnt, g2)"
    by (cases "addRndValue_loop rnd c MAX_RND_TEST_TRY v1 g1")
  show ?thesis
  proof (cases "0 < cnt")
    case True
    with addRndValue_loop_not_std [OF l] have "\<not> isStdValue c v" by simp
    with assms r l True show ?thesis by (auto simp: addRndValue_def)
  next
    case False
    with assms r l show ?thesis by (simp add: addRndValue_def)
  qed
qed


lemma addRndValues_inv:
  "random_values_not_std c \<Longrightarrow> size' c + rsize c + n \<le> length (values' c) \<Longrightarrow>
   addRndValues rnd c n g = (c', g') \<Longrightarrow> random_values_not_std c'"
proof (induction n arbitrary: c g)
  case 0
  then show ?case by simp
next
  case (Suc n)
  obtain pos c1 g1 where a: "addRndValue rnd c (rsize c) g = (pos, c1, g1)"
    by (cases "addRndValue rnd c (rsize c) g") auto
  with Suc.prems(3) have rec: "addRndValues rnd (c1\<lparr>rsize := pos\<rparr>) n g1 = (c', g')" by simp
  from addRndValue_cases [OF a] show ?case
  proof
    assume "pos = rsize c \<and> c1 = c"
    then have e: "c1\<lparr>rsize := pos\<rparr> = c" by simp
    from Suc.prems(2) have "size' c + rsize c + n \<le> length (values' c)" by simp
    from Suc.IH [OF Suc.prems(1) this] rec e show ?thesis by simp
  next
    assume "\<exists>v. pos = Suc (rsize c)
        \<and> c1 = c\<lparr>values' := (values' c)[size' c + rsize c := v]\<rparr> \<and> \<not> isStdValue c v"
    then obtain v where p: "pos = Suc (rsize c)"
      and c1: "c1 = c\<lparr>values' := (values' c)[size' c + rsize c := v]\<rparr>"
      and nv: "\<not> isStdValue c v" by blast
    let ?c2 = "c1\<lparr>rsize := pos\<rparr>"
    have sz: "size' ?c2 = size' c" "rsize ?c2 = Suc (rsize c)"
      "values' ?c2 = (values' c)[size' c + rsize c := v]"
      by (simp_all add: c1 p)
    have std: "isStdValue ?c2 x = isStdValue c x" for x
      by (rule isStdValue_cong) (simp_all add: sz)
    have lt: "size' c + rsize c < length (values' c)" using Suc.prems(2) by simp
    have "random_values_not_std ?c2"
      unfolding random_values_not_std_def
    proof (intro allI impI)
      fix i assume "i < rsize ?c2"
      then have i: "i < Suc (rsize c)" by (simp add: sz)
      show "\<not> isStdValue ?c2 (values' ?c2 ! (size' ?c2 + i))"
      proof (cases "i = rsize c")
        case True
        with lt nv show ?thesis by (simp add: std sz)
      next
        case False
        with i have "i < rsize c" by simp
        with Suc.prems(1) False show ?thesis by (simp add: std sz random_values_not_std_def)
      qed
    qed
    moreover have "size' ?c2 + rsize ?c2 + n \<le> length (values' ?c2)"
      using Suc.prems(2) by (simp add: sz)
    ultimately show ?thesis using Suc.IH [of ?c2 g1] rec by simp
  qed
qed

lemma addStdValue_props:
  "addStdValue nrm c (size' c) x = (pos, c1) \<Longrightarrow>
   pos \<le> Suc (size' c) \<and> length (values' c1) = length (values' c) \<and> rsize c1 = rsize c"
  by (auto simp: addStdValue_def split: if_splits)

lemma addStdValues_props:
  "size' (addStdValues nrm c xs) \<le> size' c + length xs
   \<and> length (values' (addStdValues nrm c xs)) = length (values' c)
   \<and> rsize (addStdValues nrm c xs) = rsize c"
proof (induction xs arbitrary: c)
  case Nil
  then show ?case by simp
next
  case (Cons x xs)
  obtain pos c1 where a: "addStdValue nrm c (size' c) x = (pos, c1)"
    by (cases "addStdValue nrm c (size' c) x")
  from addStdValue_props [OF a] Cons.IH [of "c1\<lparr>size' := pos\<rparr>"] a
  show ?case by simp
qed

lemma new_retained_not_std:
  assumes "OperandTestDataImpl_new rndNum nrm rnd junk vs base g = Inr (c, g')"
  shows "random_values_not_std c"
proof -
  define sz where "sz = length vs + (case base of None \<Rightarrow> 0 | Some b \<Rightarrow> size' b)"
  define c0 where "c0 = \<lparr> size' = 0, rsize = 0, values' = replicate (sz + rndNum) junk \<rparr>"
  define c1 where "c1 = (case base of None \<Rightarrow> c0
      | Some b \<Rightarrow> addStdValues nrm c0 (take (size' b) (values' b)))"
  define c2 where "c2 = addStdValues nrm c1 vs"
  have r: "addRndValues rnd c2 rndNum g = (c, g')"
    using assms unfolding c2_def c1_def c0_def sz_def
    by (simp add: OperandTestDataImpl_new_def Let_def split: if_splits)
  have p1: "size' c1 \<le> (case base of None \<Rightarrow> 0 | Some b \<Rightarrow> size' b)
      \<and> length (values' c1) = sz + rndNum \<and> rsize c1 = 0"
  proof (cases base)
    case None
    then show ?thesis by (simp add: c1_def c0_def)
  next
    case (Some b)
    with addStdValues_props [of nrm c0 "take (size' b) (values' b)"]
    show ?thesis by (simp add: c1_def c0_def)
  qed
  with addStdValues_props [of nrm c1 vs]
  have p2: "size' c2 \<le> sz" "length (values' c2) = sz + rndNum" "rsize c2 = 0"
    by (simp_all add: c2_def sz_def)
  then have "random_values_not_std c2" "size' c2 + rsize c2 + rndNum \<le> length (values' c2)"
    by (simp_all add: random_values_not_std_def)
  from addRndValues_inv [OF this r] show ?thesis .
qed

lemma take_draws: "take n (draws rnd g v (Suc n)) = draws rnd g v n"
proof (induction n arbitrary: g v)
  case 0
  then show ?case by (simp split: prod.splits)
next
  case (Suc n)
  obtain v1 g1 where r: "rnd g v = (v1, g1)" by (cases "rnd g v")
  have "draws rnd g v (Suc (Suc n)) = v1 # draws rnd g1 v1 (Suc n)"
    using r by simp
  with Suc.IH [of g1 v1] r show ?case by simp
qed

lemma addRndValue_loop_exhausted:
  "(\<forall>x \<in> set (take n (v # draws rnd g v n)). isStdValue c x) \<Longrightarrow>
   fst (snd (addRndValue_loop rnd c n v g)) = 0"
proof (induction n arbitrary: v g)
  case 0
  then show ?case by simp
next
  case (Suc n)
  obtain v1 g1 where r: "rnd g v = (v1, g1)" by (cases "rnd g v")
  have d: "draws rnd g v (Suc n) = v1 # draws rnd g1 v1 n" using r by simp
  from Suc.prems have s: "isStdValue c v" by simp
  have "take n (draws rnd g v (Suc n)) = take n (v1 # draws rnd g1 v1 n)" by (simp only: d)
  with Suc.prems have "\<forall>x \<in> set (take n (v1 # draws rnd g1 v1 n)). isStdValue c x"
    by simp
  from Suc.IH [OF this] s r show ?case by simp
qed

lemma addRndValue_dropped:
  assumes "\<forall>v \<in> set (draws rnd g (values' c ! 0) MAX_RND_TEST_TRY). isStdValue c v"
  shows "fst (addRndValue rnd c pos g) = pos \<and> fst (snd (addRndValue rnd c pos g)) = c"
proof -
  obtain v1 g1 where r: "rnd g (values' c ! 0) = (v1, g1)" by (cases "rnd g (values' c ! 0)")
  obtain n where n: "MAX_RND_TEST_TRY = Suc n" by (simp add: MAX_RND_TEST_TRY_def)
  have d: "draws rnd g (values' c ! 0) (Suc n) = v1 # draws rnd g1 v1 n" using r by simp
  have "take (Suc n) (v1 # draws rnd g1 v1 (Suc n)) = v1 # draws rnd g1 v1 n"
    by (simp only: take_Suc_Cons take_draws)
  with assms have "\<forall>x \<in> set (take (Suc n) (v1 # draws rnd g1 v1 (Suc n))). isStdValue c x"
    unfolding n d by simp
  from addRndValue_loop_exhausted [OF this]
  have "fst (snd (addRndValue_loop rnd c MAX_RND_TEST_TRY v1 g1)) = 0" by (simp add: n)
  then show ?thesis
    using r by (cases "addRndValue_loop rnd c MAX_RND_TEST_TRY v1 g1") (simp add: addRndValue_def)
qed

text \<open>A generator that always yields the same value.\<close>

lemma addRndValue_loop_fresh:
  "\<not> isStdValue c v \<Longrightarrow> 0 < n \<Longrightarrow> addRndValue_loop rnd c n v g = (v, n, g)"
  by (cases n) simp_all

lemma draws_constant: "set (draws (\<lambda>g v. (x, g)) g v n) \<subseteq> {x}"
  by (induction n arbitrary: g v) auto

lemma OperandTestDataImpl_eq_U8:
  "OperandTestDataImpl_eq (Scalar BRIG_TYPE_U8 a) (Scalar BRIG_TYPE_U8 b) = (a = b)"
  by (simp add: OperandTestDataImpl_eq_def native_eq_def Val_defs)

lemma catalog_with_equal_random_values:
  "OperandTestDataImpl_new 2 id (\<lambda>g v. (Scalar BRIG_TYPE_U8 (7, 0), g)) Val_none
      [Scalar BRIG_TYPE_U8 (1, 0)] None (0::nat)
     = Inr (\<lparr> size' = 1, rsize = 2,
              values' = [Scalar BRIG_TYPE_U8 (1, 0), Scalar BRIG_TYPE_U8 (7, 0),
                         Scalar BRIG_TYPE_U8 (7, 0)] \<rparr>, 0)"
proof -
  let ?rnd = "\<lambda>(g::nat) (v::Val). (Scalar BRIG_TYPE_U8 (7, 0), g)"
  let ?one = "Scalar BRIG_TYPE_U8 (1, 0)"
  let ?seven = "Scalar BRIG_TYPE_U8 (7, 0)"
  have n: "\<not> isStdValue \<lparr> size' = Suc 0, rsize = r, values' = ?one # vs \<rparr> ?seven" for r vs
    by (simp add: isStdValue_def OperandTestDataImpl_eq_U8)
  have l: "addRndValue_loop ?rnd \<lparr> size' = Suc 0, rsize = r, values' = ?one # vs \<rparr>
             MAX_RND_TEST_TRY ?seven g = (?seven, MAX_RND_TEST_TRY, g)" for r vs g
    by (rule addRndValue_loop_fresh [OF n]) (simp add: MAX_RND_TEST_TRY_def)
  have a: "addRndValue ?rnd \<lparr> size' = Suc 0, rsize = r, values' = ?one # vs \<rparr> pos 0
           = (Suc pos, \<lparr> size' = Suc 0, rsize = r, values' = ?one # vs[pos := ?seven] \<rparr>, 0)"
    for r vs pos
    by (simp add: addRndValue_def l) (simp add: MAX_RND_TEST_TRY_def)
  have s: "addStdValues id \<lparr> size' = 0, rsize = 0, values' = [Val_none, Val_none, Val_none] \<rparr>
             [?one]
           = \<lparr> size' = Suc 0, rsize = 0, values' = [?one, Val_none, Val_none] \<rparr>"
    by (simp add: addStdValue_def isStdValue_def)
  have r: "addRndValues ?rnd \<lparr> size' = Suc 0, rsize = 0, values' = [?one, Val_none, Val_none] \<rparr>
             (Suc (Suc 0)) 0
           = (\<lparr> size' = Suc 0, rsize = Suc (Suc 0), values' = [?one, ?seven, ?seven] \<rparr>, 0)"
    by (simp add: a)
  show ?thesis
    by (simp add: OperandTestDataImpl_new_def Let_def numeral_2_eq_2 numeral_3_eq_3 s r
        del: addStdValues.simps addRndValues.simps)
qed

lemma catalog_dropping_random_values:
  "OperandTestDataImpl_new 2 id (\<lambda>g v. (Scalar BRIG_TYPE_U8 (1, 0), g)) Val_none
      [Scalar BRIG_TYPE_U8 (1, 0)] None (0::nat)
     = Inr (\<lparr> size' = 1, rsize = 0,
              values' = [Scalar BRIG_TYPE_U8 (1, 0), Val_none, Val_none] \<rparr>, 0)"
proof -
  let ?one = "Scalar BRIG_TYPE_U8 (1, 0)"
  let ?c = "\<lparr> size' = Suc 0, rsize = 0, values' = [?one, Val_none, Val_none] \<rparr>"
  let ?rnd = "\<lambda>(g::nat) (v::Val). (?one, g)"
  have std: "isStdValue ?c ?one"
    by (simp add: isStdValue_def OperandTestDataImpl_eq_U8)
  have "\<forall>v \<in> set (draws ?rnd 0 (values' ?c ! 0) MAX_RND_TEST_TRY). isStdValue ?c v"
    using draws_constant [of ?one "0::nat" "values' ?c ! 0" MAX_RND_TEST_TRY] std by auto
  from addRndValue_dropped [OF this, of 0]
  have d: "fst (addRndValue ?rnd ?c 0 0) = 0 \<and> fst (snd (addRndValue ?rnd ?c 0 0)) = ?c" .
  have l: "snd (snd (addRndValue_loop ?rnd ?c n v g)) = g" for n v g
    by (induction n arbitrary: v) simp_all
  have a: "addRndValue ?rnd ?c 0 0 = (0, ?c, 0)"
  proof (cases "addRndValue_loop ?rnd ?c MAX_RND_TEST_TRY ?one 0")
    case (fields v cnt g')
    with l [of MAX_RND_TEST_TRY ?one 0] have "g' = 0" by simp
    with fields d show ?thesis
      by (cases "addRndValue ?rnd ?c 0 0") (simp add: addRndValue_def split: if_splits)
  qed
  have s: "addStdValues id \<lparr> size' = 0, rsize = 0, values' = [Val_none, Val_none, Val_none] \<rparr>
             [?one] = ?c"
    by (simp add: addStdValue_def isStdValue_def)
  have r: "addRndValues ?rnd ?c (Suc (Suc 0)) 0 = (?c, 0)"
    by (simp add: a)
  show ?thesis
    by (simp add: OperandTestDataImpl_new_def Let_def numeral_2_eq_2 numeral_3_eq_3 s r
        del: addStdValues.simps addRndValues.simps)
qed


text \<open>
  Claim C10.  In every catalog the constructor returns, each retained random value (the
  cells \<open>size\<close> to \<open>size + rsize - 1\<close>) differs, for the equality \<open>eq\<close> of the catalog,
  from every standard value (the cells below \<open>size\<close>).  When the first
  \<open>MAX_RND_TEST_TRY\<close> = 256 values the generator yields are all standard values,
  \<open>addRndValue\<close> stores nothing: it returns the position and the catalog it was given.
  Random values are not compared with each other: the constructor, asked for two
  random values with a generator that always yields 7, keeps 7 twice.
\<close>

theorem OperandTestDataImpl_random_values:
  "(OperandTestDataImpl_new rndNum nrm rnd junk vs base g = Inr (c, g') \<longrightarrow>
      (\<forall>i < rsize c. \<forall>j < size' c.
         \<not> OperandTestDataImpl_eq (values' c ! (size' c + i)) (values' c ! j)))
   \<and> (list_all (isStdValue d) (draws rnd g (values' d ! 0) MAX_RND_TEST_TRY) \<longrightarrow>
        fst (addRndValue rnd d pos g) = pos \<and> fst (snd (addRndValue rnd d pos g)) = d)
   \<and> MAX_RND_TEST_TRY = 256
   \<and> OperandTestDataImpl_new 2 id (\<lambda>g v. (Scalar BRIG_TYPE_U8 (7, 0), g)) Val_none
        [Scalar BRIG_TYPE_U8 (1, 0)] None (0::nat)
      = Inr (\<lparr> size' = 1, rsize = 2,
               values' = [Scalar BRIG_TYPE_U8 (1, 0), Scalar BRIG_TYPE_U8 (7, 0),
                          Scalar BRIG_TYPE_U8 (7, 0)] \<rparr>, 0)
   \<and> OperandTestDataImpl_eq (Scalar BRIG_TYPE_U8 (7, 0)) (Scalar BRIG_TYPE_U8 (7, 0))"
proof -
  have "\<forall>i < rsize c. \<forall>j < size' c.
          \<not> OperandTestDataImpl_eq (values' c ! (size' c + i)) (values' c ! j)"
    if "OperandTestDataImpl_new rndNum nrm rnd junk vs base g = Inr (c, g')"
    using new_retained_not_std [OF that] by (simp add: random_values_not_std_def isStdValue_iff)
  moreover have "fst (addRndValue rnd d pos g) = pos \<and> fst (snd (addRndValue rnd d pos g)) = d"
    if "list_all (isStdValue d) (draws rnd g (values' d ! 0) MAX_RND_TEST_TRY)"
    using that by (intro addRndValue_dropped) (simp add: list_all_iff)
  ultimately show ?thesis
    by (simp add: catalog_with_equal_random_values OperandTestDataImpl_eq_U8
        MAX_RND_TEST_TRY_def)
qed

lemma draws_constant_eq: "draws (\<lambda>g v. (x, g)) g v n = replicate n x"
  by (induction n arbitrary: g v) simp_all

theorem OperandTestDataImpl_random_values_witness:
  "OperandTestDataImpl_new 2 id (\<lambda>g v. (Scalar BRIG_TYPE_U8 (7, 0), g)) Val_none
        [Scalar BRIG_TYPE_U8 (1, 0)] None (0::nat)
      = Inr (\<lparr> size' = 1, rsize = 2,
               values' = [Scalar BRIG_TYPE_U8 (1, 0), Scalar BRIG_TYPE_U8 (7, 0),
                          Scalar BRIG_TYPE_U8 (7, 0)] \<rparr>, 0)
   \<and> \<not> OperandTestDataImpl_eq (Scalar BRIG_TYPE_U8 (7, 0)) (Scalar BRIG_TYPE_U8 (1, 0))
   \<and> list_all
        (isStdValue \<lparr> size' = 1, rsize = 0,
                      values' = [Scalar BRIG_TYPE_U8 (1, 0), Val_none, Val_none] \<rparr>)
        (draws (\<lambda>g v. (Scalar BRIG_TYPE_U8 (1, 0), g)) (0::nat) (Scalar BRIG_TYPE_U8 (1, 0))
           MAX_RND_TEST_TRY)
   \<and> fst (addRndValue (\<lambda>g v. (Scalar BRIG_TYPE_U8 (1, 0), g))
            \<lparr> size' = 1, rsize = 0,
              values' = [Scalar BRIG_TYPE_U8 (1, 0), Val_none, Val_none] \<rparr> 0 (0::nat)) = 0
   \<and> fst (snd (addRndValue (\<lambda>g v. (Scalar BRIG_TYPE_U8 (1, 0), g))
            \<lparr> size' = 1, rsize = 0,
              values' = [Scalar BRIG_TYPE_U8 (1, 0), Val_none, Val_none] \<rparr> 0 (0::nat)))
       = \<lparr> size' = 1, rsize = 0,
           values' = [Scalar BRIG_TYPE_U8 (1, 0), Val_none, Val_none] \<rparr>
   \<and> OperandTestDataImpl_new 2 id (\<lambda>g v. (Scalar BRIG_TYPE_U8 (1, 0), g)) Val_none
        [Scalar BRIG_TYPE_U8 (1, 0)] None (0::nat)
      = Inr (\<lparr> size' = 1, rsize = 0,
               values' = [Scalar BRIG_TYPE_U8 (1, 0), Val_none, Val_none] \<rparr>, 0)"
proof -
  let ?one = "Scalar BRIG_TYPE_U8 (1, 0)"
  let ?seven = "Scalar BRIG_TYPE_U8 (7, 0)"
  let ?c7 = "\<lparr> size' = 1, rsize = 2, values' = [?one, ?seven, ?seven] \<rparr>"
  let ?c1 = "\<lparr> size' = 1, rsize = 0, values' = [?one, Val_none, Val_none] \<rparr>"
  have std: "list_all (isStdValue ?c1) (draws (\<lambda>g v. (?one, g)) (0::nat) ?one MAX_RND_TEST_TRY)"
    by (simp add: draws_constant_eq list_all_iff isStdValue_def OperandTestDataImpl_eq_U8)
  have ne: "\<not> OperandTestDataImpl_eq ?seven ?one"
    by (simp add: OperandTestDataImpl_eq_U8)
  show ?thesis
    using
      OperandTestDataImpl_random_values
        [of 2 id "\<lambda>g v. (?seven, g)" Val_none "[?one]" None "0::nat" ?c7 0 ?c1 0]
      OperandTestDataImpl_random_values
        [of 2 id "\<lambda>g v. (?one, g)" Val_none "[?one]" None "0::nat" ?c1 0 ?c1 0]
      std ne
    by (simp add: catalog_dropping_random_values)
qed

end
